theory Spec2Isabelle
  imports Main "HOL-Library.Sublist"
begin

section \<open>The permit pipeline of automatic\_parking\_permit.py\<close>

text \<open>
  The program is a straight-line pipeline of calls to the outside world: a browser driven
  through Selenium, the file system, a Discord session and the Windows task scheduler.
  Each source function becomes a function from the world to a result, the list of external
  commands it issued, in order, and the new world. An exception (or \<open>sys.exit\<close>) is the
  result \<open>Inl\<close>; it ends every enclosing sequence, as in Python. What the outside world
  answers in a run is the record \<open>env\<close>; all theorems hold for every \<open>env\<close>.

  \<open>NeverReturns\<close> is no exception: it is the result of a call that does not come
  back. Nothing runs after it, not even the exit of a \<open>with\<close> block.

  A string is a list of characters with code points below 256; the digits among them
  are \<open>0\<close> to \<open>9\<close>.
\<close>

subsection \<open>Data\<close>

datatype error =
    TimeoutException
  | NoSuchElementException
  | WebDriverException
  | ValueError
  | FileNotFoundError
  | OSError
  | YAMLError
  | LoginFailure
  | HTTPException
  | SystemExit int
  | NeverReturns

datatype level = INFO | ERROR

text \<open>One constructor for each kind of call that leaves the process.\<close>

datatype event =
    Log level string
  | Print string
  | FirefoxStart
  | Get string
  | WaitFor int string
  | SelectByVisibleText string string
  | SendKeys string string
  | Click string
  | Text string
  | SaveFullPageScreenshot string
  | Close
  | Quit
  | ClientStart string
  | ChannelSend int string
  | HttpClose
  | ClientClose
  | Remove string
  | SubprocessRun "string list"

text \<open>
  A naive \<open>datetime\<close>: Python keeps year 1..9999, month 1..12, day 1..31, hour 0..23,
  minute and second 0..59, microsecond 0..999999.
\<close>

record datetime =
  year :: nat
  month :: nat
  day :: nat
  hour :: nat
  minute :: nat
  second :: nat
  microsecond :: nat

text \<open>
  The configuration is a dict in the source; the record is a dict that has every key the
  pipeline reads, with values of the expected type. The two flags carry the prefix
  \<open>cfg\<close> because the source uses the same names for two functions.
\<close>

record config =
  i_read_the_config_warning :: bool
  timeout :: int
  property_location :: string
  apartment_number_str :: string
  plate_number :: string
  vehicle_make :: string
  vehicle_model :: string
  vehicle_color :: string
  screenshot_folder :: string
  cfg_save_screenshot_of_permit :: bool
  cfg_send_screenshot_in_discord :: bool
  discord_bot_token :: string
  discord_channel_id :: int
  automatically_renew_permit :: bool

record args =
  arg_config :: string
  arg_verbose :: bool

text \<open>An entry of the task scheduler, as \<open>schtasks /create\<close> describes it.\<close>

record task =
  task_name :: string
  task_run :: string
  schedule :: string
  start_date :: string
  start_time :: string
  run_level :: string

text \<open>
  What the outside world does in one run: the command line, which paths are regular files,
  what the YAML loader returns, which external command raises (and what), the text of a
  page element, whether the screenshot file can be written, the two readings of the clock,
  the path of the program, the name of the Discord bot, whether the task scheduler
  accepts a command, and the text of an exception. An external command returns, raises,
  or (with \<open>Some NeverReturns\<close>) never returns.
\<close>

record env =
  cmdline :: args
  regular_file :: "string \<Rightarrow> bool"
  yaml_load :: "string \<Rightarrow> error + config"
  raises :: "event \<Rightarrow> error option"
  page_text :: "string \<Rightarrow> string"
  writable :: "string \<Rightarrow> bool"
  now_capture :: datetime
  now_schedule :: datetime
  program_file :: string
  client_user :: string
  scheduler_accepts :: "string list \<Rightarrow> bool"
  error_text :: "error \<Rightarrow> string"

record world =
  files :: "string set"
  tasks :: "task list"

subsection \<open>Sequencing with exceptions\<close>

type_synonym 'a io = "world \<Rightarrow> (error + 'a) \<times> event list \<times> world"

definition result :: "(error + 'a) \<times> event list \<times> world \<Rightarrow> error + 'a" where
  "result r = fst r"

definition events :: "(error + 'a) \<times> event list \<times> world \<Rightarrow> event list" where
  "events r = fst (snd r)"

definition world_of :: "(error + 'a) \<times> event list \<times> world \<Rightarrow> world" where
  "world_of r = snd (snd r)"

definition io_return :: "'a \<Rightarrow> 'a io" where
  "io_return x w = (Inr x, [], w)"

definition io_raise :: "error \<Rightarrow> 'a io" where
  "io_raise e w = (Inl e, [], w)"

definition io_bind :: "'a io \<Rightarrow> ('a \<Rightarrow> 'b io) \<Rightarrow> 'b io" where
  "io_bind m f w =
     (case m w of
        (Inl e, d, w1) \<Rightarrow> (Inl e, d, w1)
      | (Inr x, d, w1) \<Rightarrow> (case f x w1 of (r, d2, w2) \<Rightarrow> (r, d @ d2, w2)))"

definition io_seq :: "'a io \<Rightarrow> 'b io \<Rightarrow> 'b io" where
  "io_seq m k = io_bind m (\<lambda>_. k)"

text \<open>An external command: recorded when issued, whether or not it raises.\<close>

definition call :: "env \<Rightarrow> event \<Rightarrow> unit io" where
  "call env c w =
     (case raises env c of
        None \<Rightarrow> (Inr (), [c], w)
      | Some e \<Rightarrow> (Inl e, [c], w))"

definition logging_info :: "string \<Rightarrow> unit io" where
  "logging_info msg w = (Inr (), [Log INFO msg], w)"

definition logging_error :: "string \<Rightarrow> unit io" where
  "logging_error msg w = (Inr (), [Log ERROR msg], w)"

definition print :: "string \<Rightarrow> unit io" where
  "print msg w = (Inr (), [Print msg], w)"

definition sys_exit :: "int \<Rightarrow> 'a io" where
  "sys_exit n = io_raise (SystemExit n)"

subsection \<open>Strings, dates and their formats\<close>

text \<open>
  The white space of Python among the code points below 256: what \<open>str.strip\<close> removes
  and what \<open>\s\<close> matches in the pattern of \<open>strptime\<close>.
\<close>

definition is_space :: "char \<Rightarrow> bool" where
  "is_space c = (c \<in> set [CHR '' '', CHR 0x09, CHR 0x0A, CHR 0x0B, CHR 0x0C, CHR 0x0D,
                            CHR 0x1C, CHR 0x1D, CHR 0x1E, CHR 0x1F, CHR 0x85, CHR 0xA0])"

definition strip :: "string \<Rightarrow> string" where
  "strip s = rev (dropWhile is_space (rev (dropWhile is_space s)))"

definition d09 :: string where
  "d09 = ''0123456789''"

definition d19 :: string where
  "d19 = ''123456789''"

definition digit_value :: "char \<Rightarrow> nat" where
  "digit_value c = length (takeWhile (\<lambda>d. d \<noteq> c) d09)"

text \<open>Python's \<open>int\<close> of a matched field; a field may start with a blank.\<close>

definition py_int :: "string \<Rightarrow> nat" where
  "py_int s = foldl (\<lambda>n c. 10 * n + digit_value c) 0 (dropWhile is_space s)"

definition pad2 :: "nat \<Rightarrow> string" where
  "pad2 n = [d09 ! (n div 10 mod 10), d09 ! (n mod 10)]"

definition pad4 :: "nat \<Rightarrow> string" where
  "pad4 n = [d09 ! (n div 1000 mod 10), d09 ! (n div 100 mod 10),
             d09 ! (n div 10 mod 10), d09 ! (n mod 10)]"

text \<open>\<open>datetime.strftime\<close>, for the directives the program uses.\<close>

definition strftime_directive :: "datetime \<Rightarrow> char \<Rightarrow> string" where
  "strftime_directive dt d =
     (if d = CHR ''Y'' then pad4 (year dt)
      else if d = CHR ''m'' then pad2 (month dt)
      else if d = CHR ''d'' then pad2 (day dt)
      else if d = CHR ''H'' then pad2 (hour dt)
      else if d = CHR ''M'' then pad2 (minute dt)
      else if d = CHR ''S'' then pad2 (second dt)
      else [CHR ''%'', d])"

fun strftime :: "datetime \<Rightarrow> string \<Rightarrow> string" where
  "strftime dt [] = []"
| "strftime dt [c] = [c]"
| "strftime dt (c # d # fmt) =
     (if c = CHR ''%'' then strftime_directive dt d @ strftime dt fmt
      else c # strftime dt (d # fmt))"

text \<open>Comparison of naive datetimes: field by field, the year first.\<close>

fun lex_less :: "nat list \<Rightarrow> nat list \<Rightarrow> bool" where
  "lex_less [] ys = (ys \<noteq> [])"
| "lex_less (x # xs) [] = False"
| "lex_less (x # xs) (y # ys) = (x < y \<or> (x = y \<and> lex_less xs ys))"

definition datetime_key :: "datetime \<Rightarrow> nat list" where
  "datetime_key dt = [year dt, month dt, day dt, hour dt, minute dt, second dt, microsecond dt]"

definition datetime_less :: "datetime \<Rightarrow> datetime \<Rightarrow> bool" where
  "datetime_less a b = lex_less (datetime_key a) (datetime_key b)"

subsection \<open>\<open>datetime.strptime\<close>\<close>

text \<open>
  Python turns the format into a regular expression: a directive becomes a group of
  alternatives, tried in the order written, a blank becomes \<open>\s+\<close>, any other character
  stands for itself. An alternative is a sequence of character classes; a class is the
  string of its members. The table is the one of \<open>_strptime.TimeRE\<close>, with the AM/PM
  group of an English locale (the expression ignores case). A directive that is not in
  the table has no alternative, so nothing matches it. Characters are ASCII.
\<close>

definition directive_alts :: "char \<Rightarrow> string list list" where
  "directive_alts d =
     (if d = CHR ''m'' then [[''1'', ''012''], [''0'', d19], [d19]]
      else if d = CHR ''d'' then [[''3'', ''01''], [''12'', d09], [''0'', d19], [d19], ['' '', d19]]
      else if d = CHR ''Y'' then [[d09, d09, d09, d09]]
      else if d = CHR ''I'' then [[''1'', ''012''], [''0'', d19], [d19]]
      else if d = CHR ''H'' then [[''2'', ''0123''], [''01'', d09], [d09]]
      else if d = CHR ''M'' then [[''012345'', d09], [d09]]
      else if d = CHR ''S'' then [[''6'', ''01''], [''012345'', d09], [d09]]
      else if d = CHR ''p'' then [[''aA'', ''mM''], [''pP'', ''mM'']]
      else [])"

fun match_classes :: "string list \<Rightarrow> string \<Rightarrow> (string \<times> string) option" where
  "match_classes [] s = Some ([], s)"
| "match_classes (cls # rest) [] = None"
| "match_classes (cls # rest) (c # s) =
     (if c \<in> set cls
      then (case match_classes rest s of None \<Rightarrow> None | Some (m, r) \<Rightarrow> Some (c # m, r))
      else None)"

fun first_ok :: "'a option list \<Rightarrow> 'a option" where
  "first_ok [] = None"
| "first_ok (None # xs) = first_ok xs"
| "first_ok (Some x # xs) = Some x"

text \<open>
  The match of the whole expression, with backtracking: the first way through the
  alternatives (and the longest run of blanks first) for which the rest of the expression
  matches too. The result is the dict of the groups and the text left over.
\<close>

fun re_match :: "string \<Rightarrow> string \<Rightarrow> (char \<rightharpoonup> string) \<Rightarrow> ((char \<rightharpoonup> string) \<times> string) option" where
  "re_match [] s found = Some (found, s)"
| "re_match (c # fmt) s found =
     (if c = CHR ''%'' then
        (case fmt of
           [] \<Rightarrow> None
         | d # fmt' \<Rightarrow>
             first_ok (map (\<lambda>alt. case match_classes alt s of
                                     None \<Rightarrow> None
                                   | Some (m, r) \<Rightarrow> re_match fmt' r (found(d \<mapsto> m)))
                           (directive_alts d)))
      else if is_space c then
        first_ok (map (\<lambda>k. re_match fmt (drop k s) found)
                      (rev [1 ..< Suc (length (takeWhile is_space s))]))
      else
        (case s of
           [] \<Rightarrow> None
         | x # r \<Rightarrow> if x = c then re_match fmt r found else None))"

definition is_leap :: "nat \<Rightarrow> bool" where
  "is_leap y = (y mod 4 = 0 \<and> (y mod 100 \<noteq> 0 \<or> y mod 400 = 0))"

definition days_in_month :: "nat \<Rightarrow> nat \<Rightarrow> nat" where
  "days_in_month y m =
     (if m = 2 then (if is_leap y then 29 else 28)
      else if m \<in> set [4, 6, 9, 11] then 30 else 31)"

text \<open>The checks of the \<open>datetime\<close> constructor.\<close>

definition valid_datetime :: "datetime \<Rightarrow> bool" where
  "valid_datetime dt =
     (1 \<le> year dt \<and> year dt \<le> 9999 \<and> 1 \<le> month dt \<and> month dt \<le> 12 \<and>
      1 \<le> day dt \<and> day dt \<le> days_in_month (year dt) (month dt) \<and>
      hour dt \<le> 23 \<and> minute dt \<le> 59 \<and> second dt \<le> 59 \<and> microsecond dt \<le> 999999)"

definition group_int :: "(char \<rightharpoonup> string) \<Rightarrow> char \<Rightarrow> nat \<Rightarrow> nat" where
  "group_int found k dflt = (case found k of None \<Rightarrow> dflt | Some m \<Rightarrow> py_int m)"

text \<open>
  The hour: \<open>%H\<close> as it is; \<open>%I\<close> with the AM/PM group, 12 AM being hour 0 and
  12 PM hour 12; no AM/PM group counts as AM.
\<close>

definition found_hour :: "(char \<rightharpoonup> string) \<Rightarrow> nat" where
  "found_hour found =
     (case found (CHR ''I'') of
        None \<Rightarrow> group_int found (CHR ''H'') 0
      | Some m \<Rightarrow>
          (let h = py_int m;
               pm = (case found (CHR ''p'') of None \<Rightarrow> False | Some ap \<Rightarrow> hd ap \<in> set ''pP'')
           in if pm then (if h \<noteq> 12 then h + 12 else h)
              else (if h = 12 then 0 else h)))"

definition found_datetime :: "(char \<rightharpoonup> string) \<Rightarrow> datetime" where
  "found_datetime found =
     \<lparr>year = group_int found (CHR ''Y'') 1900,
      month = group_int found (CHR ''m'') 1,
      day = group_int found (CHR ''d'') 1,
      hour = found_hour found,
      minute = group_int found (CHR ''M'') 0,
      second = group_int found (CHR ''S'') 0,
      microsecond = 0\<rparr>"

text \<open>
  \<open>ValueError\<close> when the text does not match, when text is left over after the match,
  and when the fields are not a date and time.
\<close>

definition strptime :: "string \<Rightarrow> string \<Rightarrow> error + datetime" where
  "strptime data_string format =
     (case re_match format data_string Map.empty of
        None \<Rightarrow> Inl ValueError
      | Some (found, rest) \<Rightarrow>
          if rest \<noteq> [] then Inl ValueError
          else if valid_datetime (found_datetime found) then Inr (found_datetime found)
          else Inl ValueError)"

subsection \<open>The task scheduler\<close>

text \<open>
  What \<open>schtasks /create\<close> does to the table of tasks, as far as the options of the program
  go: a switch of the list below takes the next word as its value; the new task takes the
  place of every task of the same name when \<open>/f\<close> is given, and nothing changes when
  the name is taken and \<open>/f\<close> is missing.
\<close>

fun schtasks_options :: "string list \<Rightarrow> (string \<times> string) list" where
  "schtasks_options [] = []"
| "schtasks_options [x] = [(x, [])]"
| "schtasks_options (x # v # rest) =
     (if x \<in> set [''/tn'', ''/tr'', ''/sc'', ''/sd'', ''/st'', ''/rl'']
      then (x, v) # schtasks_options rest
      else (x, []) # schtasks_options (v # rest))"

definition option_value :: "(string \<rightharpoonup> string) \<Rightarrow> string \<Rightarrow> string" where
  "option_value opts k = (case opts k of None \<Rightarrow> [] | Some v \<Rightarrow> v)"

definition schtasks :: "string list \<Rightarrow> task list \<Rightarrow> task list" where
  "schtasks argv ts =
     (case argv of
        prog # verb # rest \<Rightarrow>
          if prog = ''schtasks'' \<and> verb = ''/create'' then
            (let opts = map_of (schtasks_options rest) in
             case opts ''/tn'' of
               None \<Rightarrow> ts
             | Some name \<Rightarrow>
                 if name \<in> set (map task_name ts) \<and> opts ''/f'' = None then ts
                 else filter (\<lambda>u. task_name u \<noteq> name) ts
                      @ [\<lparr>task_name = name,
                          task_run = option_value opts ''/tr'',
                          schedule = option_value opts ''/sc'',
                          start_date = option_value opts ''/sd'',
                          start_time = option_value opts ''/st'',
                          run_level = option_value opts ''/rl''\<rparr>])
          else ts
      | _ \<Rightarrow> ts)"

text \<open>The instant at which the scheduler starts a task: its date and its time of day.\<close>

definition task_trigger :: "task \<Rightarrow> error + datetime" where
  "task_trigger t = strptime (start_date t @ '' '' @ start_time t) ''%m/%d/%Y %H:%M''"

subsection \<open>The browser, the files, the Discord client\<close>

definition select_by_visible_text :: "env \<Rightarrow> string \<Rightarrow> string \<Rightarrow> unit io" where
  "select_by_visible_text env el txt = call env (SelectByVisibleText el txt)"

definition send_keys :: "env \<Rightarrow> string \<Rightarrow> string \<Rightarrow> unit io" where
  "send_keys env el txt = call env (SendKeys el txt)"

definition click :: "env \<Rightarrow> string \<Rightarrow> unit io" where
  "click env el = call env (Click el)"

definition element_text :: "env \<Rightarrow> string \<Rightarrow> string io" where
  "element_text env el = io_bind (call env (Text el)) (\<lambda>_. io_return (page_text env el))"

text \<open>
  Selenium writes the image to the path and returns \<open>False\<close>, without raising, when the
  file cannot be written.
\<close>

definition save_full_page_screenshot :: "env \<Rightarrow> string \<Rightarrow> bool io" where
  "save_full_page_screenshot env path w =
     (case call env (SaveFullPageScreenshot path) w of
        (Inl e, d, w1) \<Rightarrow> (Inl e, d, w1)
      | (Inr _, d, w1) \<Rightarrow>
          if writable env path then (Inr True, d, w1\<lparr>files := insert path (files w1)\<rparr>)
          else (Inr False, d, w1))"

definition os_remove :: "env \<Rightarrow> string \<Rightarrow> unit io" where
  "os_remove env path w =
     (case call env (Remove path) w of
        (Inl e, d, w1) \<Rightarrow> (Inl e, d, w1)
      | (Inr _, d, w1) \<Rightarrow> (Inr (), d, w1\<lparr>files := files w1 - {path}\<rparr>))"

text \<open>\<open>subprocess.run\<close> without \<open>check\<close>: the exit status of the command is ignored.\<close>

definition subprocess_run :: "env \<Rightarrow> string list \<Rightarrow> unit io" where
  "subprocess_run env argv w =
     (case call env (SubprocessRun argv) w of
        (Inl e, d, w1) \<Rightarrow> (Inl e, d, w1)
      | (Inr _, d, w1) \<Rightarrow>
          if scheduler_accepts env argv then (Inr (), d, w1\<lparr>tasks := schtasks argv (tasks w1)\<rparr>)
          else (Inr (), d, w1))"

text \<open>\<open>discord.File\<close> opens the file, so sending needs the file to exist.\<close>

definition channel_send :: "env \<Rightarrow> int \<Rightarrow> string \<Rightarrow> unit io" where
  "channel_send env channel path w =
     (if path \<in> files w then call env (ChannelSend channel path) w
      else io_raise FileNotFoundError w)"

text \<open>
  \<open>client.start\<close> logs in and connects; a failure there is raised to the caller. The
  library then runs the handler \<open>on_ready\<close>. The handler is an event handler: when it
  raises, discord.py reports the exception and goes on, and since \<open>client.close()\<close> is
  the last statement of the handler, the client is then never closed and
  \<open>client.start\<close> never returns.
\<close>

definition client_start :: "env \<Rightarrow> string \<Rightarrow> unit io \<Rightarrow> unit io" where
  "client_start env token handler w =
     (case call env (ClientStart token) w of
        (Inl e, d, w1) \<Rightarrow> (Inl e, d, w1)
      | (Inr _, d, w1) \<Rightarrow>
          (case handler w1 of
             (Inl e, d2, w2) \<Rightarrow> (Inl NeverReturns, d @ d2, w2)
           | (Inr _, d2, w2) \<Rightarrow> (Inr (), d @ d2, w2)))"

text \<open>
  \<open>with webdriver.Firefox() as driver\<close>: the body runs when the browser has started, and
  \<open>driver.quit()\<close> runs when the body is left, normally or by an exception. A body that
  never returns is never left.
\<close>

definition with_firefox :: "env \<Rightarrow> 'a io \<Rightarrow> 'a io" where
  "with_firefox env body w =
     (case call env FirefoxStart w of
        (Inl e, d, w1) \<Rightarrow> (Inl e, d, w1)
      | (Inr _, d, w1) \<Rightarrow>
          (case body w1 of
             (r, d2, w2) \<Rightarrow>
               if r = Inl NeverReturns then (r, d @ d2, w2) else (r, d @ d2 @ [Quit], w2)))"

subsection \<open>The functions of the program\<close>

definition parse_arguments :: "env \<Rightarrow> args io" where
  "parse_arguments env = io_return (cmdline env)"

definition setup_logging :: "bool \<Rightarrow> unit io" where
  "setup_logging verbose = io_return ()"

definition validate_config_file :: "env \<Rightarrow> string \<Rightarrow> unit io" where
  "validate_config_file env config_file w =
     (if config_file \<notin> files w then
        io_seq (logging_error (''Config file '' @ config_file @ '' does not exist.''))
               (sys_exit 1) w
      else if \<not> regular_file env config_file \<or> \<not> suffix ''.yaml'' config_file then
        io_seq (logging_error (config_file @ '' is not a valid YAML file.''))
               (sys_exit 1) w
      else io_return () w)"

definition load_config :: "env \<Rightarrow> string \<Rightarrow> config io" where
  "load_config env config_file =
     (case yaml_load env config_file of
        Inr config \<Rightarrow> io_return config
      | Inl e \<Rightarrow>
          if e = YAMLError
          then io_seq (logging_error (''Error parsing YAML file: '' @ error_text env e))
                      (sys_exit 1)
          else io_raise e)"

definition validate_config_warning :: "bool \<Rightarrow> unit io" where
  "validate_config_warning read_it =
     (if \<not> read_it then
        io_seq (print ''Did not set up config correctly, read debug.log for details'')
       (io_seq (logging_error ''Read the config warning and then set the bool under it to true.'')
               (sys_exit 1))
      else io_return ())"

definition wait_for_element :: "env \<Rightarrow> int \<Rightarrow> string \<Rightarrow> string io" where
  "wait_for_element env timeout_duration element_id =
     io_bind (call env (WaitFor timeout_duration element_id)) (\<lambda>_. io_return element_id)"

definition create_parking_permit :: "env \<Rightarrow> config \<Rightarrow> unit io" where
  "create_parking_permit env config =
     io_seq (io_bind (wait_for_element env (timeout config) ''MainContent_ddl_Property'')
                     (\<lambda>el. select_by_visible_text env el (property_location config)))
    (io_seq (io_bind (wait_for_element env (timeout config) ''MainContent_txt_Apartment'')
                     (\<lambda>el. send_keys env el (apartment_number_str config)))
    (io_seq (io_bind (wait_for_element env (timeout config) ''MainContent_btn_PropertyNext'')
                     (click env))
    (io_seq (io_bind (wait_for_element env (timeout config) ''MainContent_txt_Plate'')
                     (\<lambda>el. send_keys env el (plate_number config)))
    (io_seq (io_bind (wait_for_element env (timeout config) ''MainContent_txt_Make'')
                     (\<lambda>el. send_keys env el (vehicle_make config)))
    (io_seq (io_bind (wait_for_element env (timeout config) ''MainContent_txt_Model'')
                     (\<lambda>el. send_keys env el (vehicle_model config)))
    (io_seq (io_bind (wait_for_element env (timeout config) ''MainContent_txt_Color'')
                     (\<lambda>el. send_keys env el (vehicle_color config)))
    (io_seq (io_bind (wait_for_element env (timeout config) ''MainContent_btn_Vehicle_Next'')
                     (click env))
    (io_seq (io_bind (wait_for_element env (timeout config) ''MainContent_btn_Auth_Next'')
                     (click env))
    (io_seq (io_bind (wait_for_element env (timeout config) ''MainContent_txt_Review_PlateNumber'')
                     (\<lambda>el. send_keys env el (plate_number config)))
    (io_seq (io_bind (wait_for_element env (timeout config) ''MainContent_cb_Confirm'')
                     (click env))
            (io_bind (wait_for_element env (timeout config) ''MainContent_btn_Submit'')
                     (click env))))))))))))"

definition date_format :: string where
  "date_format = ''%m/%d/%Y %I:%M:%S %p''"

definition get_parking_permit_expiration_date :: "env \<Rightarrow> int \<Rightarrow> datetime io" where
  "get_parking_permit_expiration_date env timeout_duration =
     io_bind (wait_for_element env timeout_duration ''MainContent_lbl_Results_Expires'') (\<lambda>el.
     io_bind (element_text env el) (\<lambda>date_str.
       case strptime date_str date_format of
         Inl e \<Rightarrow> io_raise e
       | Inr dt \<Rightarrow> io_return dt))"

definition generate_screenshot_file_path :: "env \<Rightarrow> string \<Rightarrow> string" where
  "generate_screenshot_file_path env folder_path =
     folder_path @ [CHR 0x5C] @ ''rpm2park_parking_permit_''
       @ strftime (now_capture env) ''%Y-%m-%d_%H-%M-%S'' @ ''.png''"

definition save_screenshot_of_permit :: "env \<Rightarrow> string \<Rightarrow> config \<Rightarrow> unit io" where
  "save_screenshot_of_permit env screenshot_file_path config =
     io_seq (wait_for_element env (timeout config) ''MainContent_img_QRC'')
    (io_seq (save_full_page_screenshot env screenshot_file_path)
            (io_return ()))"

definition generate_command_line_arguments_as_str :: "args \<Rightarrow> string" where
  "generate_command_line_arguments_as_str a =
     strip ((if arg_config a \<noteq> ''config.yaml'' then ''--config '' @ arg_config a @ '' '' else [])
            @ (if arg_verbose a then ''--verbose '' else []))"

definition expired_message :: string where
  "expired_message =
     ''An unknown error has occurred where the parking permit has already expired.''
     @ [CHR 0x0A] @ ''The program will NOT automatically run again.''"

definition schedule_program_to_renew_permit :: "env \<Rightarrow> datetime \<Rightarrow> args \<Rightarrow> unit io" where
  "schedule_program_to_renew_permit env parking_permit_expiration_date a =
     (let task_name = ''AutomaticParkingPermitRenewal'';
          program_path = program_file env;
          program_path_escaped =
            concat (map (\<lambda>c. if c = CHR 0x5C then [c, c] else [c]) program_path);
          command_line_args = generate_command_line_arguments_as_str a
      in if datetime_less (now_schedule env) parking_permit_expiration_date then
           (let formatted_expiration_date = strftime parking_permit_expiration_date ''%m/%d/%Y'';
                formatted_expiration_time = strftime parking_permit_expiration_date ''%H:%M''
            in subprocess_run env
                 [''schtasks'',
                  ''/create'',
                  ''/tn'', task_name,
                  ''/tr'', [CHR 0x22] @ ''python '' @ program_path_escaped @ '' ''
                           @ command_line_args @ [CHR 0x22],
                  ''/sc'', ''once'',
                  ''/sd'', formatted_expiration_date,
                  ''/st'', formatted_expiration_time,
                  ''/rl'', ''HIGHEST'',
                  ''/f''])
         else io_seq (logging_error expired_message) (sys_exit 1))"

definition delete_screenshot_of_permit :: "env \<Rightarrow> string \<Rightarrow> unit io" where
  "delete_screenshot_of_permit env screenshot_file_path w =
     (if screenshot_file_path \<in> files w then os_remove env screenshot_file_path w
      else logging_error (''Could not find and delete '' @ screenshot_file_path @ ''.'') w)"

definition on_ready :: "env \<Rightarrow> string \<Rightarrow> config \<Rightarrow> unit io" where
  "on_ready env screenshot_file_path config =
     io_seq (logging_info (''Logged in as '' @ client_user env))
    (io_seq (logging_info (''Sending PNG file to discord channel from '' @ screenshot_file_path))
    (io_seq (channel_send env (discord_channel_id config) screenshot_file_path)
    (io_seq (logging_info (''Logging off of '' @ client_user env))
    (io_seq (call env HttpClose)
            (call env ClientClose)))))"

definition send_screenshot_in_discord :: "env \<Rightarrow> string \<Rightarrow> config \<Rightarrow> unit io" where
  "send_screenshot_in_discord env screenshot_file_path config =
     io_seq (if \<not> cfg_save_screenshot_of_permit config
             then save_screenshot_of_permit env screenshot_file_path config
             else call env Close)
    (io_seq (client_start env (discord_bot_token config)
                          (on_ready env screenshot_file_path config))
            (if \<not> cfg_save_screenshot_of_permit config
             then delete_screenshot_of_permit env screenshot_file_path
             else io_return ()))"

text \<open>The body of the \<open>with\<close> block of \<open>main\<close>; it hands the expiration date on.\<close>

definition browser_session :: "env \<Rightarrow> config \<Rightarrow> datetime io" where
  "browser_session env config =
     io_seq (call env (Get ''https://rpm2park.com/visitors/''))
    (io_seq (create_parking_permit env config)
    (io_bind (get_parking_permit_expiration_date env (timeout config))
       (\<lambda>parking_permit_expiration_date.
     let screenshot_file_path = generate_screenshot_file_path env (screenshot_folder config) in
     io_seq (if cfg_save_screenshot_of_permit config
             then save_screenshot_of_permit env screenshot_file_path config
             else io_return ())
    (io_seq (if cfg_send_screenshot_in_discord config
             then send_screenshot_in_discord env screenshot_file_path config
             else io_return ())
            (io_return parking_permit_expiration_date)))))"

definition main :: "env \<Rightarrow> unit io" where
  "main env =
     io_bind (parse_arguments env) (\<lambda>a.
     io_seq (setup_logging (arg_verbose a))
    (io_seq (logging_info (''Using config file: '' @ arg_config a))
    (io_seq (validate_config_file env (arg_config a))
    (io_bind (load_config env (arg_config a)) (\<lambda>config.
     io_seq (validate_config_warning (i_read_the_config_warning config))
    (io_bind (with_firefox env (browser_session env config))
       (\<lambda>parking_permit_expiration_date.
     if automatically_renew_permit config
     then schedule_program_to_renew_permit env parking_permit_expiration_date a
     else io_return ())))))))"

subsection \<open>The wizard as a script\<close>

text \<open>
  A script is a list of external commands; running it issues them in order and stops at
  the first one that raises. \<open>issued\<close> is the part of a script that is reached.
\<close>

fun run_script :: "env \<Rightarrow> event list \<Rightarrow> unit io" where
  "run_script env [] = io_return ()"
| "run_script env (c # cs) = io_seq (call env c) (run_script env cs)"

fun issued :: "env \<Rightarrow> event list \<Rightarrow> event list" where
  "issued env [] = []"
| "issued env (c # cs) = c # (if raises env c = None then issued env cs else [])"

text \<open>
  The fixed order of the wizard: the property; the apartment and \<open>next\<close>; plate, make,
  model, colour and two times \<open>next\<close>; the plate again, the confirmation, \<open>submit\<close>.
  Every interaction waits for its element first.
\<close>

definition wizard_script :: "config \<Rightarrow> event list" where
  "wizard_script config =
     [WaitFor (timeout config) ''MainContent_ddl_Property'',
      SelectByVisibleText ''MainContent_ddl_Property'' (property_location config),
      WaitFor (timeout config) ''MainContent_txt_Apartment'',
      SendKeys ''MainContent_txt_Apartment'' (apartment_number_str config),
      WaitFor (timeout config) ''MainContent_btn_PropertyNext'',
      Click ''MainContent_btn_PropertyNext'',
      WaitFor (timeout config) ''MainContent_txt_Plate'',
      SendKeys ''MainContent_txt_Plate'' (plate_number config),
      WaitFor (timeout config) ''MainContent_txt_Make'',
      SendKeys ''MainContent_txt_Make'' (vehicle_make config),
      WaitFor (timeout config) ''MainContent_txt_Model'',
      SendKeys ''MainContent_txt_Model'' (vehicle_model config),
      WaitFor (timeout config) ''MainContent_txt_Color'',
      SendKeys ''MainContent_txt_Color'' (vehicle_color config),
      WaitFor (timeout config) ''MainContent_btn_Vehicle_Next'',
      Click ''MainContent_btn_Vehicle_Next'',
      WaitFor (timeout config) ''MainContent_btn_Auth_Next'',
      Click ''MainContent_btn_Auth_Next'',
      WaitFor (timeout config) ''MainContent_txt_Review_PlateNumber'',
      SendKeys ''MainContent_txt_Review_PlateNumber'' (plate_number config),
      WaitFor (timeout config) ''MainContent_cb_Confirm'',
      Click ''MainContent_cb_Confirm'',
      WaitFor (timeout config) ''MainContent_btn_Submit'',
      Click ''MainContent_btn_Submit'']"

subsection \<open>A sample run\<close>

text \<open>
  A configuration that sends the screenshot without keeping it and renews the permit; a
  world in which every external command succeeds; the expiration text of the portal.
\<close>

definition config0 :: config where
  "config0 =
     \<lparr>i_read_the_config_warning = True,
      timeout = 10,
      property_location = ''Oak Court'',
      apartment_number_str = ''12'',
      plate_number = ''ABC123'',
      vehicle_make = ''Honda'',
      vehicle_model = ''Civic'',
      vehicle_color = ''Blue'',
      screenshot_folder = ''shots'',
      cfg_save_screenshot_of_permit = False,
      cfg_send_screenshot_in_discord = True,
      discord_bot_token = ''token'',
      discord_channel_id = 42,
      automatically_renew_permit = True\<rparr>"

definition args0 :: args where
  "args0 = \<lparr>arg_config = ''config.yaml'', arg_verbose = False\<rparr>"

definition expiry0 :: datetime where
  "expiry0 = \<lparr>year = 2024, month = 2, day = 22, hour = 18, minute = 52, second = 5,
              microsecond = 0\<rparr>"

definition clock0 :: datetime where
  "clock0 = \<lparr>year = 2024, month = 2, day = 21, hour = 18, minute = 53, second = 40,
             microsecond = 250000\<rparr>"

definition env0 :: env where
  "env0 =
     \<lparr>cmdline = args0,
      regular_file = (\<lambda>_. True),
      yaml_load = (\<lambda>_. Inr config0),
      raises = (\<lambda>_. None),
      page_text = (\<lambda>_. ''2/22/2024 6:52:05 PM''),
      writable = (\<lambda>_. True),
      now_capture = clock0,
      now_schedule = clock0,
      program_file = ''app.py'',
      client_user = ''bot'',
      scheduler_accepts = (\<lambda>_. True),
      error_text = (\<lambda>_. ''error'')\<rparr>"

definition world0 :: world where
  "world0 = \<lparr>files = {''config.yaml''}, tasks = []\<rparr>"

subsection \<open>The expiration text, as the specification describes it\<close>

text \<open>
  Month, day and year between slashes, then hour, minute and second between colons on a
  12-hour clock, then AM or PM; blanks separate the three groups. A field of the date or
  the time has one or two decimal digits (the day may have a blank for its first digit),
  the year has four. \<open>expiration_pattern s dt\<close> says that \<open>s\<close> has this form and that
  \<open>dt\<close> is the date and time it denotes.
\<close>

definition numeric_field :: "string \<Rightarrow> bool" where
  "numeric_field f = (f \<noteq> [] \<and> length f \<le> 2 \<and> list_all (\<lambda>c. c \<in> set d09) f)"

definition day_field :: "string \<Rightarrow> bool" where
  "day_field f = (length f \<le> 2 \<and> numeric_field (dropWhile (\<lambda>c. c = CHR '' '') f))"

definition year_field :: "string \<Rightarrow> bool" where
  "year_field f = (length f = 4 \<and> list_all (\<lambda>c. c \<in> set d09) f)"

definition blanks :: "string \<Rightarrow> bool" where
  "blanks ws = (ws \<noteq> [] \<and> list_all is_space ws)"

definition is_pm :: "string \<Rightarrow> bool" where
  "is_pm ap = (ap \<in> set [''PM'', ''pm'', ''Pm'', ''pM''])"

definition is_am :: "string \<Rightarrow> bool" where
  "is_am ap = (ap \<in> set [''AM'', ''am'', ''Am'', ''aM''])"

definition hour24 :: "nat \<Rightarrow> bool \<Rightarrow> nat" where
  "hour24 h pm = (if pm then (if h = 12 then 12 else h + 12) else (if h = 12 then 0 else h))"

definition expiration_pattern :: "string \<Rightarrow> datetime \<Rightarrow> bool" where
  "expiration_pattern s dt =
     (\<exists>mo dd yyyy ws1 hh mi ss ws2 ap.
        s = mo @ ''/'' @ dd @ ''/'' @ yyyy @ ws1 @ hh @ '':'' @ mi @ '':'' @ ss @ ws2 @ ap
        \<and> numeric_field mo \<and> day_field dd \<and> year_field yyyy \<and> blanks ws1
        \<and> numeric_field hh \<and> 1 \<le> py_int hh \<and> py_int hh \<le> 12
        \<and> numeric_field mi \<and> numeric_field ss \<and> blanks ws2
        \<and> (is_am ap \<or> is_pm ap)
        \<and> dt = \<lparr>year = py_int yyyy, month = py_int mo, day = py_int dd,
                 hour = hour24 (py_int hh) (is_pm ap),
                 minute = py_int mi, second = py_int ss, microsecond = 0\<rparr>
        \<and> valid_datetime dt)"

text \<open>An alternative of one or two classes of decimal digits.\<close>

definition digit_alt :: "string list \<Rightarrow> bool" where
  "digit_alt alt = (alt \<noteq> [] \<and> length alt \<le> 2 \<and> list_all (\<lambda>cls. set cls \<subseteq> set d09) alt)"

subsection \<open>The task the scheduler is asked for\<close>

text \<open>
  The descriptor of the renewal task for an expiration: the fixed name, the command that
  runs the program again with the flags of this run, one run only, on the date of the
  expiration (month/day/year) at its hour and minute, with the highest privilege.
\<close>

definition renewal_task :: "env \<Rightarrow> datetime \<Rightarrow> args \<Rightarrow> task" where
  "renewal_task env e a =
     \<lparr>task_name = ''AutomaticParkingPermitRenewal'',
      task_run = [CHR 0x22] @ ''python ''
                 @ concat (map (\<lambda>c. if c = CHR 0x5C then [c, c] else [c]) (program_file env))
                 @ '' '' @ generate_command_line_arguments_as_str a @ [CHR 0x22],
      schedule = ''once'',
      start_date = pad2 (month e) @ ''/'' @ pad2 (day e) @ ''/'' @ pad4 (year e),
      start_time = pad2 (hour e) @ '':'' @ pad2 (minute e),
      run_level = ''HIGHEST''\<rparr>"

text \<open>A second expiration, later than the first.\<close>

definition expiry1 :: datetime where
  "expiry1 = \<lparr>year = 2024, month = 3, day = 1, hour = 7, minute = 15, second = 0,
              microsecond = 0\<rparr>"

subsection \<open>The Discord session as a script, and a run in which the login fails\<close>

text \<open>The external commands of the notification session, in the order of the source.\<close>

definition session_script :: "config \<Rightarrow> string \<Rightarrow> event list" where
  "session_script config p =
     [ClientStart (discord_bot_token config), ChannelSend (discord_channel_id config) p,
      HttpClose, ClientClose]"

definition env_login_fails :: env where
  "env_login_fails =
     env0\<lparr>raises := (\<lambda>c. if c = ClientStart ''token'' then Some LoginFailure else None)\<rparr>"

subsection \<open>Kinds of commands\<close>

fun page_event :: "event \<Rightarrow> bool" where
  "page_event (Get _) = True"
| "page_event (WaitFor _ _) = True"
| "page_event (SelectByVisibleText _ _) = True"
| "page_event (SendKeys _ _) = True"
| "page_event (Click _) = True"
| "page_event (Text _) = True"
| "page_event _ = False"

fun log_event :: "event \<Rightarrow> bool" where
  "log_event (Log _ _) = True"
| "log_event (Print _) = True"
| "log_event _ = False"

fun discord_event :: "event \<Rightarrow> bool" where
  "discord_event (ClientStart _) = True"
| "discord_event (ChannelSend _ _) = True"
| "discord_event HttpClose = True"
| "discord_event ClientClose = True"
| "discord_event _ = False"

fun is_capture :: "event \<Rightarrow> bool" where
  "is_capture (SaveFullPageScreenshot _) = True"
| "is_capture _ = False"

fun is_remove :: "event \<Rightarrow> bool" where
  "is_remove (Remove _) = True"
| "is_remove _ = False"

text \<open>The two commands that close the browser: the window, and the whole session.\<close>

fun closes :: "event \<Rightarrow> bool" where
  "closes Close = True"
| "closes Quit = True"
| "closes _ = False"

text \<open>A command that needs the page of the live browser session.\<close>

definition browser_use :: "event \<Rightarrow> bool" where
  "browser_use e = (page_event e \<or> is_capture e)"

text \<open>In a list of commands, the browser is not used after it has been closed.\<close>

fun open_while_used :: "event list \<Rightarrow> bool" where
  "open_while_used [] = True"
| "open_while_used (e # es) =
     (if closes e then \<not> list_ex browser_use es else open_while_used es)"

subsection \<open>What an action may issue\<close>

text \<open>
  \<open>emits_only P m\<close>: every command \<open>m\<close> issues satisfies \<open>P\<close>, from every world.
  \<open>emits_at_most_one P m\<close>: at most one of them does. \<open>keeps_files m\<close>: no file that
  exists before \<open>m\<close> is missing after it.
\<close>

definition emits_only :: "(event \<Rightarrow> bool) \<Rightarrow> 'a io \<Rightarrow> bool" where
  "emits_only P m = (\<forall>w. list_all P (events (m w)))"

definition emits_at_most_one :: "(event \<Rightarrow> bool) \<Rightarrow> 'a io \<Rightarrow> bool" where
  "emits_at_most_one P m = (\<forall>w. length (filter P (events (m w))) \<le> 1)"

definition keeps_files :: "'a io \<Rightarrow> bool" where
  "keeps_files m = (\<forall>w. files w \<subseteq> files (world_of (m w)))"

definition orderly :: "'a io \<Rightarrow> bool" where
  "orderly m = (\<forall>w. open_while_used (events (m w)))"

subsection \<open>Files that are created and kept\<close>

text \<open>
  \<open>created env p d\<close>: among the commands \<open>d\<close> there is a capture to the path \<open>p\<close>
  that did not raise and could write its file. \<open>retains env p m\<close>: a file \<open>p\<close> that
  exists before \<open>m\<close>, or that \<open>m\<close> creates, exists after \<open>m\<close>.
\<close>

definition created :: "env \<Rightarrow> string \<Rightarrow> event list \<Rightarrow> bool" where
  "created env p d =
     (SaveFullPageScreenshot p \<in> set d \<and> raises env (SaveFullPageScreenshot p) = None
      \<and> writable env p)"

definition retains :: "env \<Rightarrow> string \<Rightarrow> 'a io \<Rightarrow> bool" where
  "retains env p m =
     (\<forall>w. p \<in> files w \<or> created env p (events (m w)) \<longrightarrow> p \<in> files (world_of (m w)))"

text \<open>
  \<open>released env m\<close>: \<open>m\<close> quits the browser only when it has started one, and it
  does quit a browser it has started whenever it ends, normally or by an exception.
\<close>

definition released :: "env \<Rightarrow> 'a io \<Rightarrow> bool" where
  "released env m =
     (\<forall>w. (Quit \<in> set (events (m w)) \<longrightarrow>
             FirefoxStart \<in> set (events (m w)) \<and> raises env FirefoxStart = None)
        \<and> (FirefoxStart \<in> set (events (m w)) \<and> raises env FirefoxStart = None
             \<and> result (m w) \<noteq> Inl NeverReturns \<longrightarrow>
             Quit \<in> set (events (m w))))"

text \<open>
  The commands issued inside the handler \<open>on_ready\<close>. \<open>stalls env m\<close>: when one of
  them raises in a run of \<open>m\<close>, the run never returns and does not quit the browser.
\<close>

fun handler_command :: "event \<Rightarrow> bool" where
  "handler_command (ChannelSend _ _) = True"
| "handler_command HttpClose = True"
| "handler_command ClientClose = True"
| "handler_command _ = False"

definition stalls :: "env \<Rightarrow> 'a io \<Rightarrow> bool" where
  "stalls env m =
     (\<forall>w. list_ex (\<lambda>c. handler_command c \<and> raises env c \<noteq> None) (events (m w)) \<longrightarrow>
            result (m w) = Inl NeverReturns \<and> Quit \<notin> set (events (m w)))"

text \<open>The path of the artifact a command works on, if it works on one.\<close>

fun artifact_path :: "event \<Rightarrow> string option" where
  "artifact_path (SaveFullPageScreenshot p) = Some p"
| "artifact_path (ChannelSend _ p) = Some p"
| "artifact_path (Remove p) = Some p"
| "artifact_path _ = None"

subsection \<open>A run that keeps the screenshot and sends it\<close>

definition config_keep :: config where
  "config_keep = config0\<lparr>cfg_save_screenshot_of_permit := True\<rparr>"

definition env_keep :: env where
  "env_keep = env0\<lparr>yaml_load := (\<lambda>_. Inr config_keep)\<rparr>"

definition shot0 :: string where
  "shot0 = ''shots'' @ [CHR 0x5C] @ ''rpm2park_parking_permit_2024-02-21_18-53-40.png''"

subsection \<open>A run in which the upload fails\<close>

definition env_send_fails :: env where
  "env_send_fails =
     env0\<lparr>raises := (\<lambda>c. case c of ChannelSend _ _ \<Rightarrow> Some HTTPException | _ \<Rightarrow> None)\<rparr>"

subsection \<open>A run that neither keeps nor sends the screenshot\<close>

definition config_plain :: config where
  "config_plain = config0\<lparr>cfg_send_screenshot_in_discord := False\<rparr>"

definition env_plain :: env where
  "env_plain = env0\<lparr>yaml_load := (\<lambda>_. Inr config_plain)\<rparr>"

section \<open>Properties\<close>

subsection \<open>Sequencing\<close>

lemma result_triple [simp]: "result (r, d, w) = r"
  by (simp add: result_def)

lemma events_triple [simp]: "events (r, d, w) = d"
  by (simp add: events_def)

lemma world_of_triple [simp]: "world_of (r, d, w) = w"
  by (simp add: world_of_def)

lemma io_return_bind: "io_bind (io_return x) f = f x"
  by (rule ext) (simp add: io_bind_def io_return_def split: prod.splits)

lemma io_bind_assoc: "io_bind (io_bind m f) g = io_bind m (\<lambda>x. io_bind (f x) g)"
  by (rule ext) (simp add: io_bind_def split: prod.splits sum.splits)

lemma io_bind_return: "io_bind m io_return = m"
  by (rule ext) (simp add: io_bind_def io_return_def split: prod.splits sum.splits)

subsection \<open>The form driver\<close>

lemma create_parking_permit_script:
  "create_parking_permit env config = run_script env (wizard_script config)"
  by (simp add: create_parking_permit_def wizard_script_def wait_for_element_def
      select_by_visible_text_def send_keys_def click_def io_seq_def io_bind_assoc io_return_bind
      io_bind_return)

lemma run_script_Cons:
  "run_script env (c # cs) w =
     (case raises env c of
        Some e \<Rightarrow> (Inl e, [c], w)
      | None \<Rightarrow> (result (run_script env cs w), c # events (run_script env cs w),
                  world_of (run_script env cs w)))"
  by (simp add: io_seq_def io_bind_def call_def result_def events_def world_of_def
      split: option.splits prod.splits sum.splits)

lemma events_run_script: "events (run_script env cs w) = issued env cs"
  by (induction cs)
     (simp_all add: io_return_def run_script_Cons del: run_script.simps(2) split: option.splits)

lemma world_of_run_script: "world_of (run_script env cs w) = w"
  by (induction cs)
     (simp_all add: io_return_def run_script_Cons del: run_script.simps(2) split: option.splits)

lemma result_run_script:
  "result (run_script env cs w) = Inr () \<longleftrightarrow> (\<forall>c\<in>set cs. raises env c = None)"
  by (induction cs)
     (auto simp add: io_return_def run_script_Cons simp del: run_script.simps(2)
        split: option.splits)

lemma issued_prefix: "prefix (issued env cs) cs"
  by (induction cs) auto

lemma issued_all: "(\<forall>c\<in>set cs. raises env c = None) \<Longrightarrow> issued env cs = cs"
  by (induction cs) auto

lemma count_list_prefix: "prefix xs ys \<Longrightarrow> count_list xs a \<le> count_list ys a"
  by (auto simp: prefix_def)

lemma submit_in_script: "count_list (wizard_script config) (Click ''MainContent_btn_Submit'') = 1"
  by (simp add: wizard_script_def)

text \<open>
  C7. For every configuration and every behaviour of the portal, the commands that
  \<open>create_parking_permit\<close> issues are an initial part of the fixed script of the wizard, in
  its order, so that no step is left out or taken twice and submit is never clicked two
  times. The function returns normally exactly when no command of the script raises; it
  has then issued the whole script, with exactly one click on submit. It changes neither
  files nor tasks.
\<close>

theorem create_parking_permit_fixed_order:
  "prefix (events (create_parking_permit env config w)) (wizard_script config)
   \<and> count_list (events (create_parking_permit env config w))
        (Click ''MainContent_btn_Submit'') \<le> 1
   \<and> (result (create_parking_permit env config w) = Inr ()
        \<longleftrightarrow> (\<forall>c\<in>set (wizard_script config). raises env c = None))
   \<and> (result (create_parking_permit env config w) = Inr () \<longrightarrow>
        events (create_parking_permit env config w) = wizard_script config
        \<and> count_list (events (create_parking_permit env config w))
             (Click ''MainContent_btn_Submit'') = 1)
   \<and> world_of (create_parking_permit env config w) = w"
proof -
  let ?R = "create_parking_permit env config w"
  have ev: "events ?R = issued env (wizard_script config)"
    by (simp add: create_parking_permit_script events_run_script)
  have pre: "prefix (events ?R) (wizard_script config)"
    by (simp add: ev issued_prefix)
  have le: "count_list (events ?R) (Click ''MainContent_btn_Submit'') \<le> 1"
    using count_list_prefix [OF pre, of "Click ''MainContent_btn_Submit''"]
    by (simp add: submit_in_script)
  have res: "result ?R = Inr () \<longleftrightarrow> (\<forall>c\<in>set (wizard_script config). raises env c = None)"
    by (simp add: create_parking_permit_script result_run_script)
  have full: "result ?R = Inr () \<longrightarrow> events ?R = wizard_script config"
    using res by (simp add: ev issued_all)
  have wo: "world_of ?R = w"
    by (simp add: create_parking_permit_script world_of_run_script)
  show ?thesis using pre le res full wo submit_in_script by simp
qed

theorem create_parking_permit_fixed_order_witness:
  "list_all (\<lambda>c. raises env0 c = None) (wizard_script config0)
   \<and> result (create_parking_permit env0 config0 world0) = Inr ()
   \<and> events (create_parking_permit env0 config0 world0) = wizard_script config0
   \<and> count_list (events (create_parking_permit env0 config0 world0))
        (Click ''MainContent_btn_Submit'') = 1"
proof -
  have quiet: "\<forall>c\<in>set (wizard_script config0). raises env0 c = None"
    by (simp add: env0_def)
  show ?thesis
    using quiet create_parking_permit_fixed_order [of env0 config0 world0]
    unfolding list_all_iff by blast
qed

subsection \<open>Deleting the screenshot\<close>

text \<open>
  C9. When the file is missing, \<open>delete_screenshot_of_permit\<close> returns normally; the one
  thing it does is to log an error that names the path. No removal is attempted, and
  files and tasks are as before.
\<close>

theorem delete_missing_file_reported:
  "screenshot_file_path \<notin> files w \<Longrightarrow>
     delete_screenshot_of_permit env screenshot_file_path w =
       (Inr (), [Log ERROR (''Could not find and delete '' @ screenshot_file_path @ ''.'')], w)"
  by (simp add: delete_screenshot_of_permit_def logging_error_def)

theorem delete_missing_file_reported_witness:
  "''shot.png'' \<notin> files world0
   \<and> delete_screenshot_of_permit env0 ''shot.png'' world0 =
       (Inr (), [Log ERROR ''Could not find and delete shot.png.''], world0)"
  using delete_missing_file_reported [of "''shot.png''" world0 env0]
  by (simp add: world0_def)

subsection \<open>The renewal scheduler\<close>

lemma lex_less_irrefl: "\<not> lex_less xs xs"
  by (induction xs) auto

lemma datetime_less_irrefl: "\<not> datetime_less t t"
  by (simp add: datetime_less_def lex_less_irrefl)

text \<open>
  C4. When the expiration is not strictly after the current time, the scheduler logs the
  error and ends the run with exit status 1; it issues no other command, and files and
  tasks are as before. Whenever the scheduler does issue a command to the operating
  system, the expiration is strictly after the current time.
\<close>

theorem expired_permit_is_fatal:
  "(\<not> datetime_less (now_schedule env) expiration \<longrightarrow>
      schedule_program_to_renew_permit env expiration a w =
        (Inl (SystemExit 1), [Log ERROR expired_message], w))
   \<and> (\<forall>argv. SubprocessRun argv
                \<in> set (events (schedule_program_to_renew_permit env expiration a w))
         \<longrightarrow> datetime_less (now_schedule env) expiration)"
  by (simp add: schedule_program_to_renew_permit_def io_seq_def io_bind_def logging_error_def
      sys_exit_def io_raise_def Let_def)

theorem expired_permit_is_fatal_witness:
  "\<not> datetime_less (now_schedule env0) clock0
   \<and> schedule_program_to_renew_permit env0 clock0 args0 world0 =
       (Inl (SystemExit 1), [Log ERROR expired_message], world0)
   \<and> (\<exists>argv. SubprocessRun argv
                \<in> set (events (schedule_program_to_renew_permit env0 expiry0 args0 world0)))
   \<and> datetime_less (now_schedule env0) expiry0"
proof -
  have past: "\<not> datetime_less (now_schedule env0) clock0"
    by (simp add: env0_def datetime_less_irrefl)
  have future: "datetime_less (now_schedule env0) expiry0"
    by (simp add: env0_def clock0_def expiry0_def datetime_less_def datetime_key_def)
  have issued: "\<exists>argv. SubprocessRun argv
                  \<in> set (events (schedule_program_to_renew_permit env0 expiry0 args0 world0))"
    using future
    by (simp add: schedule_program_to_renew_permit_def subprocess_run_def call_def Let_def
        env0_def)
  show ?thesis
    using past future issued expired_permit_is_fatal [of env0 clock0 args0 world0]
    by simp
qed

subsection \<open>Parsing the expiration\<close>

lemma first_ok_map_Some:
  "first_ok (map f xs) = Some y \<Longrightarrow> \<exists>x\<in>set xs. f x = Some y"
proof (induction xs)
  case Nil
  then show ?case by simp
next
  case (Cons a xs)
  then show ?case by (cases "f a") auto
qed

lemma match_classes_sound:
  "match_classes alt s = Some (m, r) \<Longrightarrow> s = m @ r \<and> list_all2 (\<lambda>c cls. c \<in> set cls) m alt"
proof (induction alt s arbitrary: m r rule: match_classes.induct)
  case (1 s)
  then show ?case by simp
next
  case (2 cls rest)
  then show ?case by simp
next
  case (3 cls rest c s)
  then show ?case by (auto split: if_splits option.splits)
qed

lemma re_match_directiveE:
  assumes "re_match (CHR ''%'' # d # fmt) s found = Some res"
  obtains alt m r where "alt \<in> set (directive_alts d)"
    and "s = m @ r" and "list_all2 (\<lambda>c cls. c \<in> set cls) m alt"
    and "re_match fmt r (found(d \<mapsto> m)) = Some res"
proof -
  from assms have "first_ok (map (\<lambda>alt. case match_classes alt s of None \<Rightarrow> None
        | Some (m, r) \<Rightarrow> re_match fmt r (found(d \<mapsto> m))) (directive_alts d)) = Some res"
    by simp
  then obtain alt where a: "alt \<in> set (directive_alts d)"
    and c: "(case match_classes alt s of None \<Rightarrow> None
        | Some (m, r) \<Rightarrow> re_match fmt r (found(d \<mapsto> m))) = Some res"
    using first_ok_map_Some by fastforce
  from c obtain m r where mc: "match_classes alt s = Some (m, r)"
    and k: "re_match fmt r (found(d \<mapsto> m)) = Some res"
    by (auto split: option.splits)
  from match_classes_sound [OF mc] a k that show thesis by blast
qed

lemma re_match_literalE:
  assumes "re_match (c # fmt) s found = Some res" and "c \<noteq> CHR ''%''" and "\<not> is_space c"
  obtains r where "s = c # r" and "re_match fmt r found = Some res"
  using assms by (auto split: list.splits if_splits)

lemma take_takeWhile_all:
  "k \<le> length (takeWhile P s) \<Longrightarrow> list_all P (take k s)"
proof -
  assume k: "k \<le> length (takeWhile P s)"
  have "take k s = take k (takeWhile P s @ dropWhile P s)" by simp
  also have "\<dots> = take k (takeWhile P s)" using k by (simp del: takeWhile_dropWhile_id)
  finally have "set (take k s) \<subseteq> set (takeWhile P s)" by (simp add: set_take_subset)
  then show ?thesis by (auto simp: list_all_iff dest: set_takeWhileD)
qed

lemma re_match_blankE:
  assumes "re_match (c # fmt) s found = Some res" and "c \<noteq> CHR ''%''" and "is_space c"
  obtains ws r where "s = ws @ r" and "ws \<noteq> []" and "list_all is_space ws"
    and "re_match fmt r found = Some res"
proof -
  from assms have "first_ok (map (\<lambda>k. re_match fmt (drop k s) found)
                      (rev [1 ..< Suc (length (takeWhile is_space s))])) = Some res"
    by simp
  then obtain k where k: "k \<in> set (rev [1 ..< Suc (length (takeWhile is_space s))])"
    and m: "re_match fmt (drop k s) found = Some res"
    using first_ok_map_Some by fastforce
  from k have k1: "1 \<le> k" and k2: "k \<le> length (takeWhile is_space s)" by auto
  have "length (takeWhile is_space s) \<le> length s" by (rule length_takeWhile_le)
  with k1 k2 have ne: "take k s \<noteq> []" by auto
  have "s = take k s @ drop k s" by simp
  with ne take_takeWhile_all [OF k2] m that show thesis by blast
qed


lemma classes_subset:
  "list_all2 (\<lambda>c cls. c \<in> set cls) m alt \<Longrightarrow> list_all (\<lambda>cls. set cls \<subseteq> A) alt \<Longrightarrow>
     list_all (\<lambda>c. c \<in> A) m"
  by (induction m alt rule: list_all2_induct) auto

lemma digit_alt_field:
  assumes "digit_alt alt" and "list_all2 (\<lambda>c cls. c \<in> set cls) m alt"
  shows "numeric_field m"
proof -
  from assms(2) have len: "length m = length alt" by (rule list_all2_lengthD)
  from assms have "list_all (\<lambda>c. c \<in> set d09) m"
    by (auto simp: digit_alt_def intro: classes_subset)
  with len assms(1) show ?thesis by (auto simp: numeric_field_def digit_alt_def)
qed

lemma digit_alts_m: "list_all digit_alt (directive_alts (CHR ''m''))"
  by (simp add: directive_alts_def digit_alt_def d09_def d19_def)

lemma digit_alts_I: "list_all digit_alt (directive_alts (CHR ''I''))"
  by (simp add: directive_alts_def digit_alt_def d09_def d19_def)

lemma digit_alts_M: "list_all digit_alt (directive_alts (CHR ''M''))"
  by (simp add: directive_alts_def digit_alt_def d09_def d19_def)

lemma digit_alts_S: "list_all digit_alt (directive_alts (CHR ''S''))"
  by (simp add: directive_alts_def digit_alt_def d09_def d19_def)

lemma alt_two_digits:
  "alt \<in> set (directive_alts d) \<Longrightarrow> list_all digit_alt (directive_alts d) \<Longrightarrow>
     list_all2 (\<lambda>c cls. c \<in> set cls) m alt \<Longrightarrow> numeric_field m"
  by (auto simp: list_all_iff intro: digit_alt_field)

lemma blank_not_digit: "CHR '' '' \<notin> set d09"
  by (simp add: d09_def)

lemma numeric_day:
  assumes "numeric_field m"
  shows "day_field m"
proof -
  from assms obtain c cs where m: "m = c # cs"
    by (cases m) (auto simp: numeric_field_def)
  with assms have "c \<in> set d09"
    by (simp add: numeric_field_def)
  with blank_not_digit have "c \<noteq> CHR '' ''"
    by blast
  then have "dropWhile (\<lambda>c. c = CHR '' '') m = m"
    by (simp add: m)
  with assms show ?thesis
    by (simp add: day_field_def numeric_field_def)
qed

lemma alt_day:
  assumes "alt \<in> set (directive_alts (CHR ''d''))"
    and "list_all2 (\<lambda>c cls. c \<in> set cls) m alt"
  shows "day_field m"
proof -
  from assms(1) consider "alt = ['' '', d19]"
    | "alt \<in> set [[''3'', ''01''], [''12'', d09], [''0'', d19], [d19]]"
    by (auto simp: directive_alts_def)
  then show ?thesis
  proof cases
    case 1
    with assms(2) obtain c where "m = [CHR '' '', c]" and "c \<in> set d19"
      by (auto simp: list_all2_Cons2)
    then show ?thesis
      by (auto simp: day_field_def numeric_field_def d19_def d09_def)
  next
    case 2
    then have "digit_alt alt"
      by (auto simp: digit_alt_def d09_def d19_def)
    then show ?thesis using assms(2) by (auto intro: numeric_day digit_alt_field)
  qed
qed

lemma alt_year:
  assumes "alt \<in> set (directive_alts (CHR ''Y''))"
    and "list_all2 (\<lambda>c cls. c \<in> set cls) m alt"
  shows "year_field m"
proof -
  from assms(1) have alt: "alt = [d09, d09, d09, d09]" by (simp add: directive_alts_def)
  from assms(2) have "length m = length alt" by (rule list_all2_lengthD)
  moreover from assms(2) have "list_all (\<lambda>c. c \<in> set d09) m"
    by (rule classes_subset) (simp add: alt)
  ultimately show ?thesis by (simp add: year_field_def alt)
qed

lemma py_int_1: "c \<in> set d09 \<Longrightarrow> py_int [c] = digit_value c"
  by (auto simp: py_int_def is_space_def d09_def)

lemma py_int_2: "c \<in> set d09 \<Longrightarrow> py_int [c, e] = 10 * digit_value c + digit_value e"
  by (auto simp: py_int_def is_space_def d09_def)

lemma alt_hour12:
  assumes "alt \<in> set (directive_alts (CHR ''I''))"
    and "list_all2 (\<lambda>c cls. c \<in> set cls) m alt"
  shows "1 \<le> py_int m \<and> py_int m \<le> 12"
proof -
  from assms(1) consider "alt = [''1'', ''012'']" | "alt = [''0'', d19]" | "alt = [d19]"
    by (auto simp: directive_alts_def)
  then show ?thesis
  proof cases
    case 1
    with assms(2) obtain e where "m = [CHR ''1'', e]" and "e \<in> set ''012''"
      by (auto simp: list_all2_Cons2)
    then show ?thesis by (auto simp: py_int_2 d09_def digit_value_def)
  next
    case 2
    with assms(2) obtain e where "m = [CHR ''0'', e]" and "e \<in> set d19"
      by (auto simp: list_all2_Cons2)
    then show ?thesis by (auto simp: py_int_2 d09_def d19_def digit_value_def)
  next
    case 3
    with assms(2) obtain e where "m = [e]" and "e \<in> set d19"
      by (auto simp: list_all2_Cons2)
    then show ?thesis by (auto simp: py_int_1 d09_def d19_def digit_value_def)
  qed
qed

lemma alt_ampm:
  assumes "alt \<in> set (directive_alts (CHR ''p''))"
    and "list_all2 (\<lambda>c cls. c \<in> set cls) m alt"
  shows "(is_am m \<or> is_pm m) \<and> (hd m \<in> set ''pP'' \<longleftrightarrow> is_pm m)"
proof -
  from assms(1) consider "alt = [''aA'', ''mM'']" | "alt = [''pP'', ''mM'']"
    by (auto simp: directive_alts_def)
  then show ?thesis
  proof cases
    case 1
    with assms(2) obtain c e where "m = [c, e]" and "c \<in> set ''aA''" and "e \<in> set ''mM''"
      by (auto simp: list_all2_Cons2)
    then show ?thesis by (auto simp: is_am_def is_pm_def)
  next
    case 2
    with assms(2) obtain c e where "m = [c, e]" and "c \<in> set ''pP''" and "e \<in> set ''mM''"
      by (auto simp: list_all2_Cons2)
    then show ?thesis by (auto simp: is_am_def is_pm_def)
  qed
qed


lemma strptime_date_format:
  assumes "strptime s date_format = Inr dt"
  shows "expiration_pattern s dt"
proof -
  from assms obtain found
    where rm: "re_match date_format s Map.empty = Some (found, [])"
      and valid: "valid_datetime (found_datetime found)"
      and dt: "dt = found_datetime found"
    by (auto simp: strptime_def split: option.splits if_splits)
  from rm have "re_match (CHR ''%'' # CHR ''m'' # ''/%d/%Y %I:%M:%S %p'') s Map.empty
                  = Some (found, [])"
    by (simp add: date_format_def)
  then obtain a1 mo r1 where a1: "a1 \<in> set (directive_alts (CHR ''m''))"
    and s1: "s = mo @ r1" and m1: "list_all2 (\<lambda>c cls. c \<in> set cls) mo a1"
    and k1: "re_match (CHR ''/'' # ''%d/%Y %I:%M:%S %p'') r1 [CHR ''m'' \<mapsto> mo] = Some (found, [])"
    by (rule re_match_directiveE)
  from k1 obtain r2 where s2: "r1 = CHR ''/'' # r2"
    and k2: "re_match (CHR ''%'' # CHR ''d'' # ''/%Y %I:%M:%S %p'') r2 [CHR ''m'' \<mapsto> mo]
               = Some (found, [])"
    by (rule re_match_literalE) (simp_all add: is_space_def)
  from k2 obtain a2 dd r3 where a2: "a2 \<in> set (directive_alts (CHR ''d''))"
    and s3: "r2 = dd @ r3" and m2: "list_all2 (\<lambda>c cls. c \<in> set cls) dd a2"
    and k3: "re_match (CHR ''/'' # ''%Y %I:%M:%S %p'') r3 [CHR ''m'' \<mapsto> mo, CHR ''d'' \<mapsto> dd]
               = Some (found, [])"
    by (rule re_match_directiveE)
  from k3 obtain r4 where s4: "r3 = CHR ''/'' # r4"
    and k4: "re_match (CHR ''%'' # CHR ''Y'' # '' %I:%M:%S %p'') r4
               [CHR ''m'' \<mapsto> mo, CHR ''d'' \<mapsto> dd] = Some (found, [])"
    by (rule re_match_literalE) (simp_all add: is_space_def)
  from k4 obtain a3 yyyy r5 where a3: "a3 \<in> set (directive_alts (CHR ''Y''))"
    and s5: "r4 = yyyy @ r5" and m3: "list_all2 (\<lambda>c cls. c \<in> set cls) yyyy a3"
    and k5: "re_match (CHR '' '' # ''%I:%M:%S %p'') r5
               [CHR ''m'' \<mapsto> mo, CHR ''d'' \<mapsto> dd, CHR ''Y'' \<mapsto> yyyy] = Some (found, [])"
    by (rule re_match_directiveE)
  from k5 obtain ws1 r6 where s6: "r5 = ws1 @ r6" and w1: "ws1 \<noteq> []" "list_all is_space ws1"
    and k6: "re_match (CHR ''%'' # CHR ''I'' # '':%M:%S %p'') r6
               [CHR ''m'' \<mapsto> mo, CHR ''d'' \<mapsto> dd, CHR ''Y'' \<mapsto> yyyy] = Some (found, [])"
    by (rule re_match_blankE) (simp_all add: is_space_def)
  from k6 obtain a4 hh r7 where a4: "a4 \<in> set (directive_alts (CHR ''I''))"
    and s7: "r6 = hh @ r7" and m4: "list_all2 (\<lambda>c cls. c \<in> set cls) hh a4"
    and k7: "re_match (CHR '':'' # ''%M:%S %p'') r7
               [CHR ''m'' \<mapsto> mo, CHR ''d'' \<mapsto> dd, CHR ''Y'' \<mapsto> yyyy, CHR ''I'' \<mapsto> hh]
               = Some (found, [])"
    by (rule re_match_directiveE)
  from k7 obtain r8 where s8: "r7 = CHR '':'' # r8"
    and k8: "re_match (CHR ''%'' # CHR ''M'' # '':%S %p'') r8
               [CHR ''m'' \<mapsto> mo, CHR ''d'' \<mapsto> dd, CHR ''Y'' \<mapsto> yyyy, CHR ''I'' \<mapsto> hh]
               = Some (found, [])"
    by (rule re_match_literalE) (simp_all add: is_space_def)
  from k8 obtain a5 mi r9 where a5: "a5 \<in> set (directive_alts (CHR ''M''))"
    and s9: "r8 = mi @ r9" and m5: "list_all2 (\<lambda>c cls. c \<in> set cls) mi a5"
    and k9: "re_match (CHR '':'' # ''%S %p'') r9
               [CHR ''m'' \<mapsto> mo, CHR ''d'' \<mapsto> dd, CHR ''Y'' \<mapsto> yyyy, CHR ''I'' \<mapsto> hh,
                CHR ''M'' \<mapsto> mi] = Some (found, [])"
    by (rule re_match_directiveE)
  from k9 obtain r10 where s10: "r9 = CHR '':'' # r10"
    and k10: "re_match (CHR ''%'' # CHR ''S'' # '' %p'') r10
               [CHR ''m'' \<mapsto> mo, CHR ''d'' \<mapsto> dd, CHR ''Y'' \<mapsto> yyyy, CHR ''I'' \<mapsto> hh,
                CHR ''M'' \<mapsto> mi] = Some (found, [])"
    by (rule re_match_literalE) (simp_all add: is_space_def)
  from k10 obtain a6 ss r11 where a6: "a6 \<in> set (directive_alts (CHR ''S''))"
    and s11: "r10 = ss @ r11" and m6: "list_all2 (\<lambda>c cls. c \<in> set cls) ss a6"
    and k11: "re_match (CHR '' '' # ''%p'') r11
               [CHR ''m'' \<mapsto> mo, CHR ''d'' \<mapsto> dd, CHR ''Y'' \<mapsto> yyyy, CHR ''I'' \<mapsto> hh,
                CHR ''M'' \<mapsto> mi, CHR ''S'' \<mapsto> ss] = Some (found, [])"
    by (rule re_match_directiveE)
  from k11 obtain ws2 r12 where s12: "r11 = ws2 @ r12" and w2: "ws2 \<noteq> []" "list_all is_space ws2"
    and k12: "re_match (CHR ''%'' # CHR ''p'' # []) r12
               [CHR ''m'' \<mapsto> mo, CHR ''d'' \<mapsto> dd, CHR ''Y'' \<mapsto> yyyy, CHR ''I'' \<mapsto> hh,
                CHR ''M'' \<mapsto> mi, CHR ''S'' \<mapsto> ss] = Some (found, [])"
    by (rule re_match_blankE) (simp_all add: is_space_def)
  from k12 obtain a7 ap r13 where a7: "a7 \<in> set (directive_alts (CHR ''p''))"
    and s13: "r12 = ap @ r13" and m7: "list_all2 (\<lambda>c cls. c \<in> set cls) ap a7"
    and k13: "re_match [] r13
               [CHR ''m'' \<mapsto> mo, CHR ''d'' \<mapsto> dd, CHR ''Y'' \<mapsto> yyyy, CHR ''I'' \<mapsto> hh,
                CHR ''M'' \<mapsto> mi, CHR ''S'' \<mapsto> ss, CHR ''p'' \<mapsto> ap] = Some (found, [])"
    by (rule re_match_directiveE)
  from k13 have r13: "r13 = []"
    and found: "found = [CHR ''m'' \<mapsto> mo, CHR ''d'' \<mapsto> dd, CHR ''Y'' \<mapsto> yyyy, CHR ''I'' \<mapsto> hh,
                CHR ''M'' \<mapsto> mi, CHR ''S'' \<mapsto> ss, CHR ''p'' \<mapsto> ap]"
    by simp_all
  have shape: "s = mo @ ''/'' @ dd @ ''/'' @ yyyy @ ws1 @ hh @ '':'' @ mi @ '':'' @ ss @ ws2 @ ap"
    by (simp add: s1 s2 s3 s4 s5 s6 s7 s8 s9 s10 s11 s12 s13 r13)
  have f1: "numeric_field mo" by (rule alt_two_digits [OF a1 digit_alts_m m1])
  have f2: "day_field dd" by (rule alt_day [OF a2 m2])
  have f3: "year_field yyyy" by (rule alt_year [OF a3 m3])
  have f4: "numeric_field hh" by (rule alt_two_digits [OF a4 digit_alts_I m4])
  have f4': "1 \<le> py_int hh \<and> py_int hh \<le> 12" by (rule alt_hour12 [OF a4 m4])
  have f5: "numeric_field mi" by (rule alt_two_digits [OF a5 digit_alts_M m5])
  have f6: "numeric_field ss" by (rule alt_two_digits [OF a6 digit_alts_S m6])
  have f7: "(is_am ap \<or> is_pm ap) \<and> (hd ap \<in> set ''pP'' \<longleftrightarrow> is_pm ap)"
    by (rule alt_ampm [OF a7 m7])
  have rec: "dt = \<lparr>year = py_int yyyy, month = py_int mo, day = py_int dd,
                 hour = hour24 (py_int hh) (is_pm ap),
                 minute = py_int mi, second = py_int ss, microsecond = 0\<rparr>"
    using f7 by (simp add: dt found found_datetime_def found_hour_def group_int_def hour24_def
        Let_def del: set_simps)
  from valid dt have "valid_datetime dt" by simp
  with shape f1 f2 f3 f4 f4' f5 f6 f7 rec w1 w2 show ?thesis
    unfolding expiration_pattern_def blanks_def by blast
qed

lemma strptime_sample: "strptime ''2/22/2024 6:52:05 PM'' date_format = Inr expiry0"
  by (simp add: strptime_def date_format_def directive_alts_def d09_def d19_def is_space_def
      found_datetime_def found_hour_def group_int_def py_int_def digit_value_def
      valid_datetime_def days_in_month_def is_leap_def expiry0_def)

lemma strptime_iso_date: "strptime ''2024-02-22'' date_format = Inl ValueError"
  by (simp add: strptime_def date_format_def directive_alts_def d09_def d19_def is_space_def)


lemma result_get_parking_permit_expiration_date:
  "result (get_parking_permit_expiration_date env timeout_duration w) =
     (case raises env (WaitFor timeout_duration ''MainContent_lbl_Results_Expires'') of
        Some e \<Rightarrow> Inl e
      | None \<Rightarrow>
          (case raises env (Text ''MainContent_lbl_Results_Expires'') of
             Some e \<Rightarrow> Inl e
           | None \<Rightarrow> strptime (page_text env ''MainContent_lbl_Results_Expires'') date_format))"
  by (simp add: get_parking_permit_expiration_date_def wait_for_element_def element_text_def
      io_bind_def io_return_def io_raise_def call_def split: option.splits sum.splits)



lemma strftime_date:
  "strftime e ''%m/%d/%Y'' = pad2 (month e) @ ''/'' @ pad2 (day e) @ ''/'' @ pad4 (year e)"
  by (simp add: strftime_directive_def)

lemma strftime_time: "strftime e ''%H:%M'' = pad2 (hour e) @ '':'' @ pad2 (minute e)"
  by (simp add: strftime_directive_def)

lemma schedule_future:
  assumes "datetime_less (now_schedule env) e"
    and "\<forall>argv. raises env (SubprocessRun argv) = None"
    and "\<forall>argv. scheduler_accepts env argv"
  shows "schedule_program_to_renew_permit env e a w =
     (Inr (),
      [SubprocessRun [''schtasks'', ''/create'', ''/tn'', task_name (renewal_task env e a),
         ''/tr'', task_run (renewal_task env e a), ''/sc'', ''once'',
         ''/sd'', start_date (renewal_task env e a), ''/st'', start_time (renewal_task env e a),
         ''/rl'', ''HIGHEST'', ''/f'']],
      w\<lparr>tasks := filter (\<lambda>t. task_name t \<noteq> ''AutomaticParkingPermitRenewal'') (tasks w)
                    @ [renewal_task env e a]\<rparr>)"
  using assms
  by (simp add: schedule_program_to_renew_permit_def subprocess_run_def call_def Let_def
      schtasks_def option_value_def renewal_task_def strftime_date strftime_time
      del: strftime.simps)

lemma future_expiry0: "datetime_less (now_schedule env0) expiry0"
  by (simp add: env0_def clock0_def expiry0_def datetime_less_def datetime_key_def)

lemma future_expiry1: "datetime_less (now_schedule env0) expiry1"
  by (simp add: env0_def clock0_def expiry1_def datetime_less_def datetime_key_def)

lemma env0_quiet: "raises env0 c = None"
  by (simp add: env0_def)

lemma env0_accepts: "scheduler_accepts env0 argv"
  by (simp add: env0_def)

text \<open>
  C3, as the claim states it, fails: the claim has the trigger match the expiration
  instant, but the start time handed to the scheduler has hours and minutes only. For
  the expiration 18:52:05 the registered task starts at 18:52:00.
\<close>

theorem trigger_drops_seconds:
  "datetime_less (now_schedule env0) expiry0
   \<and> map task_trigger
        (tasks (world_of (schedule_program_to_renew_permit env0 expiry0 args0 world0)))
      = [Inr (expiry0\<lparr>second := 0\<rparr>)]
   \<and> expiry0\<lparr>second := 0\<rparr> \<noteq> expiry0"
proof -
  have quiet: "\<forall>argv. raises env0 (SubprocessRun argv) = None"
    and accepts: "\<forall>argv. scheduler_accepts env0 argv"
    by (simp_all add: env0_def)
  have trigger: "task_trigger (renewal_task env0 expiry0 args0) = Inr (expiry0\<lparr>second := 0\<rparr>)"
    by (simp add: task_trigger_def renewal_task_def expiry0_def pad2_def pad4_def d09_def
        strptime_def directive_alts_def d19_def is_space_def found_datetime_def found_hour_def
        group_int_def py_int_def digit_value_def valid_datetime_def days_in_month_def is_leap_def)
  have differs: "expiry0\<lparr>second := 0\<rparr> \<noteq> expiry0"
    by (simp add: expiry0_def)
  show ?thesis
    using future_expiry0 trigger differs
    by (simp add: schedule_future [OF future_expiry0 quiet accepts] world0_def)
qed

text \<open>
  C3, amended. For every expiration strictly after the current time, when the
  \<open>schtasks\<close> command starts and the scheduler accepts it: the call returns normally, and
  the table of tasks is the old one without any task named
  \<open>AutomaticParkingPermitRenewal\<close>, followed by the renewal task. So exactly one task has
  that name, whatever the table held before (an earlier renewal task is replaced, not
  duplicated); it runs once, with the highest privilege, on the date of the expiration at
  the hour and minute of the expiration. The seconds of the expiration play no part: the
  task is the same for every second within the minute.
\<close>

theorem renewal_task_registered:
  assumes "datetime_less (now_schedule env) expiration"
    and "\<forall>argv. raises env (SubprocessRun argv) = None"
    and "\<forall>argv. scheduler_accepts env argv"
  shows "result (schedule_program_to_renew_permit env expiration a w) = Inr ()
    \<and> tasks (world_of (schedule_program_to_renew_permit env expiration a w)) =
        filter (\<lambda>t. task_name t \<noteq> ''AutomaticParkingPermitRenewal'') (tasks w)
        @ [renewal_task env expiration a]
    \<and> filter (\<lambda>t. task_name t = ''AutomaticParkingPermitRenewal'')
        (tasks (world_of (schedule_program_to_renew_permit env expiration a w))) =
        [renewal_task env expiration a]
    \<and> schedule (renewal_task env expiration a) = ''once''
    \<and> run_level (renewal_task env expiration a) = ''HIGHEST''
    \<and> start_date (renewal_task env expiration a) =
        pad2 (month expiration) @ ''/'' @ pad2 (day expiration) @ ''/'' @ pad4 (year expiration)
    \<and> start_time (renewal_task env expiration a) =
        pad2 (hour expiration) @ '':'' @ pad2 (minute expiration)
    \<and> renewal_task env (expiration\<lparr>second := s, microsecond := u\<rparr>) a =
        renewal_task env expiration a"
proof -
  have name: "task_name (renewal_task env expiration a) = ''AutomaticParkingPermitRenewal''"
    by (simp add: renewal_task_def)
  have "filter (\<lambda>t. task_name t = ''AutomaticParkingPermitRenewal'')
          (filter (\<lambda>t. task_name t \<noteq> ''AutomaticParkingPermitRenewal'') (tasks w)) = []"
    by (induction "tasks w") (simp_all add: filter_empty_conv)
  with name show ?thesis
    by (simp add: schedule_future [OF assms]) (simp add: renewal_task_def)
qed

theorem renewal_task_registered_witness:
  "datetime_less (now_schedule env0) expiry1
   \<and> (\<forall>argv. raises env0 (SubprocessRun argv) = None)
   \<and> (\<forall>argv. scheduler_accepts env0 argv)
   \<and> filter (\<lambda>t. task_name t = ''AutomaticParkingPermitRenewal'')
        (tasks (world_of (schedule_program_to_renew_permit env0 expiry1 args0
           (world_of (schedule_program_to_renew_permit env0 expiry0 args0 world0))))) =
        [renewal_task env0 expiry1 args0]
   \<and> start_date (renewal_task env0 expiry1 args0) = ''03/01/2024''
   \<and> start_time (renewal_task env0 expiry1 args0) = ''07:15''"
proof -
  have quiet: "\<forall>argv. raises env0 (SubprocessRun argv) = None"
    and accepts: "\<forall>argv. scheduler_accepts env0 argv"
    by (simp_all add: env0_def)
  have strings: "start_date (renewal_task env0 expiry1 args0) = ''03/01/2024''"
    "start_time (renewal_task env0 expiry1 args0) = ''07:15''"
    by (simp_all add: renewal_task_def expiry1_def pad2_def pad4_def d09_def)
  show ?thesis
    using renewal_task_registered [OF future_expiry1 quiet accepts, where a = args0
        and w = "world_of (schedule_program_to_renew_permit env0 expiry0 args0 world0)"
        and s = 0 and u = 0]
      future_expiry1 quiet accepts strings
    by blast
qed

subsection \<open>The dispatch step with an ephemeral screenshot\<close>

lemmas dispatch_defs =
  send_screenshot_in_discord_def save_screenshot_of_permit_def wait_for_element_def
  save_full_page_screenshot_def client_start_def on_ready_def channel_send_def
  delete_screenshot_of_permit_def os_remove_def logging_info_def logging_error_def
  io_seq_def io_bind_def io_return_def io_raise_def call_def

lemma ephemeral_success:
  assumes "\<not> cfg_save_screenshot_of_permit config"
    and "result (send_screenshot_in_discord env p config w) = Inr ()"
  shows "p \<notin> files (world_of (send_screenshot_in_discord env p config w))
    \<and> events (send_screenshot_in_discord env p config w) =
        [WaitFor (timeout config) ''MainContent_img_QRC'', SaveFullPageScreenshot p,
         ClientStart (discord_bot_token config),
         Log INFO (''Logged in as '' @ client_user env),
         Log INFO (''Sending PNG file to discord channel from '' @ p),
         ChannelSend (discord_channel_id config) p,
         Log INFO (''Logging off of '' @ client_user env),
         HttpClose, ClientClose, Remove p]"
  using assms
  by (simp add: dispatch_defs split: option.splits if_splits)

lemma ephemeral_failure:
  assumes "\<not> cfg_save_screenshot_of_permit config"
    and "raises env (WaitFor (timeout config) ''MainContent_img_QRC'') = None"
    and "raises env (SaveFullPageScreenshot p) = None"
    and "writable env p"
    and "list_ex (\<lambda>c. raises env c \<noteq> None) (session_script config p)"
  shows "(\<exists>e. result (send_screenshot_in_discord env p config w) = Inl e)
    \<and> Remove p \<notin> set (events (send_screenshot_in_discord env p config w))
    \<and> p \<in> files (world_of (send_screenshot_in_discord env p config w))"
  using assms
  by (auto simp add: dispatch_defs session_script_def split: option.splits if_splits)




subsection \<open>What each function issues\<close>

lemma is_remove_iff: "is_remove e \<longleftrightarrow> (\<exists>p. e = Remove p)"
  by (cases e) simp_all

lemma is_capture_iff: "is_capture e \<longleftrightarrow> (\<exists>p. e = SaveFullPageScreenshot p)"
  by (cases e) simp_all

lemma closes_iff: "closes e \<longleftrightarrow> e = Close \<or> e = Quit"
  by (cases e) simp_all

lemma log_event_iff: "log_event e \<longleftrightarrow> (\<exists>l s. e = Log l s) \<or> (\<exists>s. e = Print s)"
  by (cases e) simp_all

lemma discord_event_iff:
  "discord_event e \<longleftrightarrow>
     (\<exists>t. e = ClientStart t) \<or> (\<exists>c p. e = ChannelSend c p) \<or> e = HttpClose \<or> e = ClientClose"
  by (cases e) simp_all

lemma page_event_iff:
  "page_event e \<longleftrightarrow>
     (\<exists>u. e = Get u) \<or> (\<exists>t i. e = WaitFor t i) \<or> (\<exists>i x. e = SelectByVisibleText i x)
     \<or> (\<exists>i x. e = SendKeys i x) \<or> (\<exists>i. e = Click i) \<or> (\<exists>i. e = Text i)"
  by (cases e) simp_all

lemmas event_kinds =
  is_remove_iff is_capture_iff closes_iff log_event_iff discord_event_iff page_event_iff
  browser_use_def

lemma events_bind:
  "events (io_bind m f w) =
     events (m w) @ (case result (m w) of Inl e \<Rightarrow> [] | Inr x \<Rightarrow> events (f x (world_of (m w))))"
  by (simp add: io_bind_def result_def events_def world_of_def split: prod.splits sum.splits)

lemma world_of_bind:
  "world_of (io_bind m f w) =
     (case result (m w) of Inl e \<Rightarrow> world_of (m w) | Inr x \<Rightarrow> world_of (f x (world_of (m w))))"
  by (simp add: io_bind_def result_def events_def world_of_def split: prod.splits sum.splits)

named_theorems emits

lemma emits_only_return [emits]: "emits_only P (io_return x)"
  by (simp add: emits_only_def io_return_def)

lemma emits_only_raise [emits]: "emits_only P (io_raise e)"
  by (simp add: emits_only_def io_raise_def)

lemma emits_only_sys_exit [emits]: "emits_only P (sys_exit n)"
  by (simp add: sys_exit_def emits_only_raise)

lemma emits_only_call [emits]: "P c \<Longrightarrow> emits_only P (call env c)"
  by (simp add: emits_only_def call_def split: option.splits)

lemma emits_only_logging_info [emits]: "P (Log INFO msg) \<Longrightarrow> emits_only P (logging_info msg)"
  by (simp add: emits_only_def logging_info_def)

lemma emits_only_logging_error [emits]: "P (Log ERROR msg) \<Longrightarrow> emits_only P (logging_error msg)"
  by (simp add: emits_only_def logging_error_def)

lemma emits_only_print [emits]: "P (Print msg) \<Longrightarrow> emits_only P (print msg)"
  by (simp add: emits_only_def print_def)

lemma emits_only_bind [emits]:
  "emits_only P m \<Longrightarrow> (\<And>x. emits_only P (f x)) \<Longrightarrow> emits_only P (io_bind m f)"
  by (simp add: emits_only_def events_bind split: sum.splits)

lemma emits_only_seq [emits]:
  "emits_only P m \<Longrightarrow> emits_only P k \<Longrightarrow> emits_only P (io_seq m k)"
  by (simp add: io_seq_def emits_only_bind)

lemma emits_only_if [emits]:
  "(c \<Longrightarrow> emits_only P a) \<Longrightarrow> (\<not> c \<Longrightarrow> emits_only P b) \<Longrightarrow> emits_only P (if c then a else b)"
  by simp

lemma emits_only_mono:
  "emits_only Q m \<Longrightarrow> (\<And>e. Q e \<Longrightarrow> P e) \<Longrightarrow> emits_only P m"
  by (auto simp: emits_only_def list_all_iff)

lemma emits_only_save_full_page_screenshot [emits]:
  "P (SaveFullPageScreenshot p) \<Longrightarrow> emits_only P (save_full_page_screenshot env p)"
  by (simp add: emits_only_def save_full_page_screenshot_def call_def split: option.splits)

lemma emits_only_os_remove [emits]: "P (Remove p) \<Longrightarrow> emits_only P (os_remove env p)"
  by (simp add: emits_only_def os_remove_def call_def split: option.splits)

lemma emits_only_subprocess_run [emits]:
  "P (SubprocessRun argv) \<Longrightarrow> emits_only P (subprocess_run env argv)"
  by (simp add: emits_only_def subprocess_run_def call_def split: option.splits)

lemma emits_only_channel_send [emits]:
  "P (ChannelSend c p) \<Longrightarrow> emits_only P (channel_send env c p)"
  by (simp add: emits_only_def channel_send_def call_def io_raise_def split: option.splits)

lemma events_with_firefox:
  "events (with_firefox env body w) =
     (case raises env FirefoxStart of
        Some e \<Rightarrow> [FirefoxStart]
      | None \<Rightarrow> FirefoxStart # events (body w)
                 @ (if result (body w) = Inl NeverReturns then [] else [Quit]))"
  by (simp add: with_firefox_def call_def events_def result_def split: option.splits prod.splits)

lemma events_client_start:
  "events (client_start env t h w) = events (io_seq (call env (ClientStart t)) h w)"
  by (simp add: client_start_def io_seq_def io_bind_def call_def events_def
      split: option.splits prod.splits sum.splits)

lemma world_of_client_start:
  "world_of (client_start env t h w) = world_of (io_seq (call env (ClientStart t)) h w)"
  by (simp add: client_start_def io_seq_def io_bind_def call_def world_of_def
      split: option.splits prod.splits sum.splits)

lemma emits_only_client_start [emits]:
  "P (ClientStart t) \<Longrightarrow> emits_only P h \<Longrightarrow> emits_only P (client_start env t h)"
  using emits_only_seq [OF emits_only_call, of P "ClientStart t" h env]
  by (simp add: emits_only_def events_client_start)

lemma emits_only_with_firefox [emits]:
  "P FirefoxStart \<Longrightarrow> P Quit \<Longrightarrow> emits_only P body \<Longrightarrow> emits_only P (with_firefox env body)"
  by (simp add: emits_only_def events_with_firefox split: option.splits)

lemma emits_only_validate_config_file:
  "emits_only log_event (validate_config_file env f)"
  by (simp add: emits_only_def validate_config_file_def io_seq_def io_bind_def logging_error_def
      sys_exit_def io_raise_def io_return_def)

lemma emits_only_validate_config_warning:
  "emits_only log_event (validate_config_warning b)"
  unfolding validate_config_warning_def by (intro emits) simp_all

lemma emits_only_create_parking_permit:
  "emits_only page_event (create_parking_permit env config)"
  unfolding create_parking_permit_def wait_for_element_def select_by_visible_text_def
    send_keys_def click_def
  by (intro emits) simp_all

lemma emits_only_get_parking_permit_expiration_date:
  "emits_only page_event (get_parking_permit_expiration_date env t)"
  unfolding get_parking_permit_expiration_date_def wait_for_element_def element_text_def
  by (intro emits) (simp_all add: emits split: sum.splits)

lemma emits_only_save_screenshot_of_permit:
  "emits_only (\<lambda>e. page_event e \<or> e = SaveFullPageScreenshot p)
     (save_screenshot_of_permit env p config)"
  unfolding save_screenshot_of_permit_def wait_for_element_def
  by (intro emits) simp_all

lemma emits_only_delete_screenshot_of_permit:
  "emits_only (\<lambda>e. log_event e \<or> e = Remove p) (delete_screenshot_of_permit env p)"
  by (simp add: emits_only_def delete_screenshot_of_permit_def os_remove_def call_def
      logging_error_def split: option.splits)

lemma emits_only_client_session:
  "emits_only (\<lambda>e. e \<in> set (session_script config p) \<or> log_event e)
     (client_start env (discord_bot_token config) (on_ready env p config))"
  unfolding on_ready_def
  by (intro emits) (simp_all add: session_script_def)

lemma session_script_discord: "e \<in> set (session_script config p) \<Longrightarrow> discord_event e"
  by (auto simp: session_script_def)

lemma emits_only_dispatch_retained:
  "cfg_save_screenshot_of_permit config \<Longrightarrow>
     emits_only (\<lambda>e. e = Close \<or> discord_event e \<or> log_event e)
       (send_screenshot_in_discord env p config)"
  unfolding send_screenshot_in_discord_def
  by (intro emits emits_only_mono [OF emits_only_client_session])
     (auto dest: session_script_discord)

lemma emits_only_dispatch_ephemeral:
  "\<not> cfg_save_screenshot_of_permit config \<Longrightarrow>
     emits_only (\<lambda>e. page_event e \<or> e = SaveFullPageScreenshot p \<or> discord_event e
                    \<or> log_event e \<or> e = Remove p)
       (send_screenshot_in_discord env p config)"
  unfolding send_screenshot_in_discord_def
  by (intro emits emits_only_mono [OF emits_only_client_session]
        emits_only_mono [OF emits_only_save_screenshot_of_permit]
        emits_only_mono [OF emits_only_delete_screenshot_of_permit])
     (auto dest: session_script_discord)

lemma emits_only_schedule:
  "emits_only (\<lambda>e. log_event e \<or> (\<exists>argv. e = SubprocessRun argv))
     (schedule_program_to_renew_permit env e a)"
  unfolding schedule_program_to_renew_permit_def Let_def
  by (intro emits) simp_all


lemma emits_only_browser_session_retained:
  "cfg_save_screenshot_of_permit config \<Longrightarrow>
     emits_only (\<lambda>e. page_event e \<or> is_capture e \<or> e = Close \<or> discord_event e \<or> log_event e)
       (browser_session env config)"
  unfolding browser_session_def Let_def
  by (intro emits emits_only_mono [OF emits_only_create_parking_permit]
        emits_only_mono [OF emits_only_get_parking_permit_expiration_date]
        emits_only_mono [OF emits_only_save_screenshot_of_permit]
        emits_only_mono [OF emits_only_dispatch_retained])
     auto

lemma emits_only_browser_session_ephemeral:
  "\<not> cfg_save_screenshot_of_permit config \<Longrightarrow>
     emits_only (\<lambda>e. page_event e \<or> is_capture e \<or> discord_event e \<or> log_event e \<or> is_remove e)
       (browser_session env config)"
  unfolding browser_session_def Let_def
  by (intro emits emits_only_mono [OF emits_only_create_parking_permit]
        emits_only_mono [OF emits_only_get_parking_permit_expiration_date]
        emits_only_mono [OF emits_only_dispatch_ephemeral])
     auto

lemma main_loaded:
  assumes "yaml_load env (arg_config (cmdline env)) = Inr config"
  shows "main env =
     io_seq (logging_info (''Using config file: '' @ arg_config (cmdline env)))
    (io_seq (validate_config_file env (arg_config (cmdline env)))
    (io_seq (validate_config_warning (i_read_the_config_warning config))
    (io_bind (with_firefox env (browser_session env config))
       (\<lambda>parking_permit_expiration_date.
     if automatically_renew_permit config
     then schedule_program_to_renew_permit env parking_permit_expiration_date (cmdline env)
     else io_return ()))))"
  by (simp add: main_def parse_arguments_def setup_logging_def load_config_def assms
      io_return_bind io_seq_def)

lemma emits_only_main:
  assumes "yaml_load env (arg_config (cmdline env)) = Inr config"
    and "emits_only P (browser_session env config)"
    and "P FirefoxStart" and "P Quit"
    and "\<And>e. log_event e \<Longrightarrow> P e" and "\<And>argv. P (SubprocessRun argv)"
  shows "emits_only P (main env)"
  unfolding main_loaded [OF assms(1)]
  by (intro emits emits_only_mono [OF emits_only_validate_config_file]
        emits_only_mono [OF emits_only_validate_config_warning]
        emits_only_mono [OF emits_only_schedule] assms(2))
     (auto simp: assms)

lemma main_no_remove:
  assumes "yaml_load env (arg_config (cmdline env)) = Inr config"
    and "cfg_save_screenshot_of_permit config"
  shows "emits_only (\<lambda>e. \<not> is_remove e) (main env)"
  by (rule emits_only_main [OF assms(1)
        emits_only_mono [OF emits_only_browser_session_retained [OF assms(2)]]])
     (auto simp: event_kinds)

subsection \<open>Files are kept when the screenshot is retained\<close>

named_theorems keeps

lemma keeps_return [keeps]: "keeps_files (io_return x)"
  by (simp add: keeps_files_def io_return_def)

lemma keeps_raise [keeps]: "keeps_files (io_raise e)"
  by (simp add: keeps_files_def io_raise_def)

lemma keeps_sys_exit [keeps]: "keeps_files (sys_exit n)"
  by (simp add: sys_exit_def keeps_raise)

lemma keeps_call [keeps]: "keeps_files (call env c)"
  by (simp add: keeps_files_def call_def split: option.splits)

lemma keeps_logging_info [keeps]: "keeps_files (logging_info msg)"
  by (simp add: keeps_files_def logging_info_def)

lemma keeps_logging_error [keeps]: "keeps_files (logging_error msg)"
  by (simp add: keeps_files_def logging_error_def)

lemma keeps_print [keeps]: "keeps_files (print msg)"
  by (simp add: keeps_files_def print_def)

lemma keeps_bind [keeps]:
  assumes "keeps_files m" and "\<And>x. keeps_files (f x)"
  shows "keeps_files (io_bind m f)"
proof -
  have "files w \<subseteq> files (world_of (io_bind m f w))" for w
  proof (cases "result (m w)")
    case (Inl e)
    with assms(1) show ?thesis by (simp add: world_of_bind keeps_files_def)
  next
    case (Inr x)
    from assms(1) have "files w \<subseteq> files (world_of (m w))" by (simp add: keeps_files_def)
    moreover from assms(2) have "files (world_of (m w)) \<subseteq> files (world_of (f x (world_of (m w))))"
      by (simp add: keeps_files_def)
    ultimately show ?thesis using Inr by (simp add: world_of_bind)
  qed
  then show ?thesis by (simp add: keeps_files_def)
qed

lemma keeps_seq [keeps]: "keeps_files m \<Longrightarrow> keeps_files k \<Longrightarrow> keeps_files (io_seq m k)"
  by (simp add: io_seq_def keeps_bind)

lemma keeps_if [keeps]:
  "(c \<Longrightarrow> keeps_files a) \<Longrightarrow> (\<not> c \<Longrightarrow> keeps_files b) \<Longrightarrow> keeps_files (if c then a else b)"
  by simp

lemma keeps_save_full_page_screenshot [keeps]: "keeps_files (save_full_page_screenshot env p)"
  by (auto simp: keeps_files_def save_full_page_screenshot_def call_def split: option.splits)

lemma keeps_subprocess_run [keeps]: "keeps_files (subprocess_run env argv)"
  by (simp add: keeps_files_def subprocess_run_def call_def split: option.splits)

lemma keeps_channel_send [keeps]: "keeps_files (channel_send env c p)"
  by (simp add: keeps_files_def channel_send_def call_def io_raise_def split: option.splits)

lemma world_of_with_firefox:
  "world_of (with_firefox env body w) =
     (case raises env FirefoxStart of Some e \<Rightarrow> w | None \<Rightarrow> world_of (body w))"
  by (simp add: with_firefox_def call_def world_of_def split: option.splits prod.splits)

lemma keeps_with_firefox [keeps]: "keeps_files body \<Longrightarrow> keeps_files (with_firefox env body)"
  by (simp add: keeps_files_def world_of_with_firefox split: option.splits)

lemma keeps_validate_config_file: "keeps_files (validate_config_file env f)"
  by (simp add: keeps_files_def validate_config_file_def io_seq_def io_bind_def logging_error_def
      sys_exit_def io_raise_def io_return_def)

lemma keeps_validate_config_warning: "keeps_files (validate_config_warning b)"
  unfolding validate_config_warning_def by (intro keeps)

lemma keeps_create_parking_permit: "keeps_files (create_parking_permit env config)"
  by (simp add: keeps_files_def create_parking_permit_script world_of_run_script)

lemma keeps_get_parking_permit_expiration_date:
  "keeps_files (get_parking_permit_expiration_date env t)"
  unfolding get_parking_permit_expiration_date_def wait_for_element_def element_text_def
  by (intro keeps) (simp_all add: keeps split: sum.splits)

lemma keeps_save_screenshot_of_permit: "keeps_files (save_screenshot_of_permit env p config)"
  unfolding save_screenshot_of_permit_def wait_for_element_def
  by (intro keeps)

lemma keeps_client_start [keeps]: "keeps_files h \<Longrightarrow> keeps_files (client_start env t h)"
  using keeps_seq [OF keeps_call, of h env "ClientStart t"]
  by (simp add: keeps_files_def world_of_client_start)

lemma keeps_client_session:
  "keeps_files (client_start env token (on_ready env p config))"
  unfolding on_ready_def
  by (intro keeps)

lemma keeps_dispatch_retained:
  "cfg_save_screenshot_of_permit config \<Longrightarrow> keeps_files (send_screenshot_in_discord env p config)"
  unfolding send_screenshot_in_discord_def
  by (intro keeps keeps_client_session) simp_all

lemma keeps_schedule: "keeps_files (schedule_program_to_renew_permit env e a)"
  unfolding schedule_program_to_renew_permit_def Let_def
  by (intro keeps)

lemma keeps_browser_session_retained:
  "cfg_save_screenshot_of_permit config \<Longrightarrow> keeps_files (browser_session env config)"
  unfolding browser_session_def Let_def
  by (intro keeps keeps_create_parking_permit keeps_get_parking_permit_expiration_date
        keeps_save_screenshot_of_permit keeps_dispatch_retained)

lemma keeps_main:
  assumes "yaml_load env (arg_config (cmdline env)) = Inr config"
    and "cfg_save_screenshot_of_permit config"
  shows "keeps_files (main env)"
  unfolding main_loaded [OF assms(1)]
  by (intro keeps keeps_validate_config_file keeps_validate_config_warning keeps_schedule
        keeps_browser_session_retained assms(2))


lemma retains_quiet:
  assumes "keeps_files m" and "emits_only (\<lambda>e. \<not> is_capture e) m"
  shows "retains env p m"
proof -
  have "\<not> created env p (events (m w))" for w
  proof
    assume "created env p (events (m w))"
    then have "SaveFullPageScreenshot p \<in> set (events (m w))"
      by (simp add: created_def)
    moreover from assms(2) have "\<forall>e\<in>set (events (m w)). \<not> is_capture e"
      by (simp add: emits_only_def list_all_iff)
    ultimately show False by fastforce
  qed
  with assms(1) show ?thesis by (auto simp: retains_def keeps_files_def)
qed

lemma created_append: "created env p (a @ b) \<longleftrightarrow> created env p a \<or> created env p b"
  by (auto simp: created_def)

lemma retains_bind:
  assumes "retains env p m" and "\<And>x. retains env p (f x)"
  shows "retains env p (io_bind m f)"
proof -
  have "p \<in> files (world_of (io_bind m f w))"
    if h: "p \<in> files w \<or> created env p (events (io_bind m f w))" for w
  proof (cases "result (m w)")
    case (Inl e)
    with h assms(1) show ?thesis
      by (auto simp: world_of_bind events_bind retains_def)
  next
    case (Inr x)
    with h have "p \<in> files w \<or> created env p (events (m w))
        \<or> created env p (events (f x (world_of (m w))))"
      by (simp add: events_bind created_append)
    then have "p \<in> files (world_of (m w)) \<or> created env p (events (f x (world_of (m w))))"
      using assms(1) by (auto simp: retains_def)
    then have "p \<in> files (world_of (f x (world_of (m w))))"
      using assms(2) [of x] by (auto simp: retains_def)
    with Inr show ?thesis by (simp add: world_of_bind)
  qed
  then show ?thesis by (simp add: retains_def)
qed

lemma retains_seq: "retains env p m \<Longrightarrow> retains env p k \<Longrightarrow> retains env p (io_seq m k)"
  by (simp add: io_seq_def retains_bind)

lemma retains_capture: "retains env p (save_full_page_screenshot env q)"
  by (auto simp: retains_def created_def save_full_page_screenshot_def call_def
      split: option.splits)

lemma retains_with_firefox:
  assumes "retains env p body"
  shows "retains env p (with_firefox env body)"
proof -
  have "created env p (events (with_firefox env body w)) \<Longrightarrow>
          raises env FirefoxStart = None \<and> created env p (events (body w))" for w
    by (auto simp: created_def events_with_firefox split: option.splits if_splits)
  with assms show ?thesis
    by (auto simp: retains_def world_of_with_firefox split: option.splits)
qed

lemma retains_save_screenshot_of_permit:
  "retains env p (save_screenshot_of_permit env q config)"
  unfolding save_screenshot_of_permit_def wait_for_element_def
  by (intro retains_seq retains_bind retains_capture retains_quiet keeps emits) simp_all

lemma no_capture_dispatch_retained:
  "cfg_save_screenshot_of_permit config \<Longrightarrow>
     emits_only (\<lambda>e. \<not> is_capture e) (send_screenshot_in_discord env q config)"
  by (rule emits_only_mono [OF emits_only_dispatch_retained]) (auto simp: event_kinds)

lemma retains_browser_session:
  assumes "cfg_save_screenshot_of_permit config"
  shows "retains env p (browser_session env config)"
  unfolding browser_session_def Let_def
  apply (intro retains_seq retains_bind)
        apply (rule retains_quiet; intro keeps emits; simp)
       apply (rule retains_quiet [OF keeps_create_parking_permit])
       apply (rule emits_only_mono [OF emits_only_create_parking_permit])
       apply (auto simp: event_kinds) [1]
      apply (rule retains_quiet [OF keeps_get_parking_permit_expiration_date])
      apply (rule emits_only_mono [OF emits_only_get_parking_permit_expiration_date])
      apply (auto simp: event_kinds) [1]
     apply (simp add: assms retains_save_screenshot_of_permit)
    apply (cases "cfg_send_screenshot_in_discord config")
     apply (simp add: retains_quiet [OF keeps_dispatch_retained [OF assms]
          no_capture_dispatch_retained [OF assms]])
    apply (simp add: retains_quiet [OF keeps_return emits_only_return])
   apply (rule retains_quiet [OF keeps_return emits_only_return])
  done


lemma no_capture_log: "emits_only log_event m \<Longrightarrow> emits_only (\<lambda>e. \<not> is_capture e) m"
  by (erule emits_only_mono) (auto simp: event_kinds)

lemma retains_main:
  assumes "yaml_load env (arg_config (cmdline env)) = Inr config"
    and "cfg_save_screenshot_of_permit config"
  shows "retains env p (main env)"
  unfolding main_loaded [OF assms(1)]
  apply (intro retains_seq retains_bind retains_with_firefox
      retains_browser_session [OF assms(2)])
     apply (rule retains_quiet; intro keeps emits; simp)
    apply (rule retains_quiet [OF keeps_validate_config_file
        no_capture_log [OF emits_only_validate_config_file]])
   apply (rule retains_quiet [OF keeps_validate_config_warning
        no_capture_log [OF emits_only_validate_config_warning]])
  apply (rule retains_quiet)
   apply (intro keeps keeps_schedule)
  apply (intro emits emits_only_mono [OF emits_only_schedule])
  apply (auto simp: event_kinds)
  done

lemmas run_defs =
  main_def parse_arguments_def setup_logging_def validate_config_file_def load_config_def
  validate_config_warning_def with_firefox_def browser_session_def
  get_parking_permit_expiration_date_def element_text_def generate_screenshot_file_path_def
  strftime_directive_def pad2_def pad4_def d09_def
  dispatch_defs print_def sys_exit_def

lemma env_keep_loaded: "yaml_load env_keep (arg_config (cmdline env_keep)) = Inr config_keep"
  by (simp add: env_keep_def)

lemma keep_flag: "cfg_save_screenshot_of_permit config_keep"
  by (simp add: config_keep_def)

lemma env_keep_created: "created env_keep shot0 (events (main env_keep world0))"
  by (simp add: created_def run_defs create_parking_permit_script wizard_script_def
      strptime_sample [unfolded date_format_def] date_format_def
      env_keep_def env0_def config_keep_def config0_def args0_def world0_def clock0_def shot0_def
      schedule_program_to_renew_permit_def subprocess_run_def Let_def
      datetime_less_def datetime_key_def expiry0_def suffix_to_prefix)

text \<open>
  C8. In every run whose configuration has \<open>save_screenshot_of_permit\<close> true: the run
  issues no removal of any file; every file that exists at the start exists at the end;
  and the screenshot, once a capture has written it, exists when the run ends, whether
  the run ends normally or by an exception. The dispatch step issues no removal either,
  from whatever world it starts.
\<close>

theorem retained_screenshot_never_deleted:
  assumes "yaml_load env (arg_config (cmdline env)) = Inr config"
    and "cfg_save_screenshot_of_permit config"
  shows "list_all (\<lambda>e. \<not> is_remove e) (events (main env w))
    \<and> files w \<subseteq> files (world_of (main env w))
    \<and> (created env p (events (main env w)) \<longrightarrow> p \<in> files (world_of (main env w)))
    \<and> list_all (\<lambda>e. \<not> is_remove e) (events (send_screenshot_in_discord env q config w'))"
proof -
  have "emits_only (\<lambda>e. \<not> is_remove e) (send_screenshot_in_discord env q config)"
    by (rule emits_only_mono [OF emits_only_dispatch_retained [OF assms(2)]])
       (auto simp: event_kinds)
  then show ?thesis
    using main_no_remove [OF assms] keeps_main [OF assms] retains_main [OF assms, of p]
    by (simp add: emits_only_def keeps_files_def retains_def)
qed

theorem retained_screenshot_never_deleted_witness:
  "yaml_load env_keep (arg_config (cmdline env_keep)) = Inr config_keep
   \<and> cfg_save_screenshot_of_permit config_keep
   \<and> created env_keep shot0 (events (main env_keep world0))
   \<and> shot0 \<in> files (world_of (main env_keep world0))"
  using retained_screenshot_never_deleted [OF env_keep_loaded keep_flag, of world0 shot0]
    env_keep_loaded keep_flag env_keep_created
  by simp

subsection \<open>One capture, one path\<close>

lemma at_most_one_none:
  "emits_only (\<lambda>e. \<not> P e) m \<Longrightarrow> emits_at_most_one P m"
  by (simp add: emits_only_def emits_at_most_one_def list_all_iff filter_False)

lemma filter_none: "list_all (\<lambda>e. \<not> P e) xs \<Longrightarrow> filter P xs = []"
  by (simp add: list_all_iff filter_empty_conv)

lemma at_most_one_bind_first:
  assumes "emits_at_most_one P m" and "\<And>x. emits_only (\<lambda>e. \<not> P e) (f x)"
  shows "emits_at_most_one P (io_bind m f)"
proof -
  have "length (filter P (events (io_bind m f w))) \<le> 1" for w
  proof (cases "result (m w)")
    case (Inl e)
    with assms(1) show ?thesis by (simp add: events_bind emits_at_most_one_def)
  next
    case (Inr x)
    from assms(2) [of x] have "filter P (events (f x (world_of (m w)))) = []"
      by (simp add: emits_only_def filter_none)
    with Inr assms(1) show ?thesis by (simp add: events_bind emits_at_most_one_def)
  qed
  then show ?thesis by (simp add: emits_at_most_one_def)
qed

lemma at_most_one_bind_second:
  assumes "emits_only (\<lambda>e. \<not> P e) m" and "\<And>x. emits_at_most_one P (f x)"
  shows "emits_at_most_one P (io_bind m f)"
proof -
  have "length (filter P (events (io_bind m f w))) \<le> 1" for w
  proof -
    from assms(1) have none: "filter P (events (m w)) = []"
      by (simp add: emits_only_def filter_none)
    show ?thesis
    proof (cases "result (m w)")
      case (Inl e)
      with none show ?thesis by (simp add: events_bind)
    next
      case (Inr x)
      with none assms(2) [of x] show ?thesis by (simp add: events_bind emits_at_most_one_def)
    qed
  qed
  then show ?thesis by (simp add: emits_at_most_one_def)
qed

lemma at_most_one_seq_first:
  "emits_at_most_one P m \<Longrightarrow> emits_only (\<lambda>e. \<not> P e) k \<Longrightarrow> emits_at_most_one P (io_seq m k)"
  by (simp add: io_seq_def at_most_one_bind_first)

lemma at_most_one_seq_second:
  "emits_only (\<lambda>e. \<not> P e) m \<Longrightarrow> emits_at_most_one P k \<Longrightarrow> emits_at_most_one P (io_seq m k)"
  by (simp add: io_seq_def at_most_one_bind_second)

lemma at_most_one_call: "emits_at_most_one P (call env c)"
  by (simp add: emits_at_most_one_def call_def split: option.splits)

lemma at_most_one_capture: "emits_at_most_one P (save_full_page_screenshot env p)"
  by (simp add: emits_at_most_one_def save_full_page_screenshot_def call_def
      split: option.splits)

lemma at_most_one_with_firefox:
  "\<not> P FirefoxStart \<Longrightarrow> \<not> P Quit \<Longrightarrow> emits_at_most_one P body \<Longrightarrow>
     emits_at_most_one P (with_firefox env body)"
  by (simp add: emits_at_most_one_def events_with_firefox split: option.splits)

lemma at_most_one_main:
  assumes "yaml_load env (arg_config (cmdline env)) = Inr config"
    and "emits_at_most_one P (browser_session env config)"
    and "\<not> P FirefoxStart" and "\<not> P Quit"
    and "\<And>e. log_event e \<Longrightarrow> \<not> P e" and "\<And>argv. \<not> P (SubprocessRun argv)"
  shows "emits_at_most_one P (main env)"
  unfolding main_loaded [OF assms(1)]
  apply (intro at_most_one_seq_second)
     apply (intro emits; simp add: assms)
    apply (rule emits_only_mono [OF emits_only_validate_config_file]; simp add: assms)
   apply (rule emits_only_mono [OF emits_only_validate_config_warning]; simp add: assms)
  apply (rule at_most_one_bind_first)
   apply (rule at_most_one_with_firefox; simp add: assms)
  apply (intro emits emits_only_mono [OF emits_only_schedule])
  apply (auto simp: assms)
  done

lemma no_capture_page: "emits_only page_event m \<Longrightarrow> emits_only (\<lambda>e. \<not> is_capture e) m"
  by (erule emits_only_mono) (auto simp: event_kinds)

lemma one_capture_save_screenshot_of_permit:
  "emits_at_most_one is_capture (save_screenshot_of_permit env p config)"
  unfolding save_screenshot_of_permit_def wait_for_element_def
  apply (rule at_most_one_seq_second)
   apply (intro emits; simp)
  apply (rule at_most_one_seq_first [OF at_most_one_capture])
  apply (rule emits_only_return)
  done

lemma no_capture_client_session:
  "emits_only (\<lambda>e. \<not> is_capture e) (client_start env (discord_bot_token config) (on_ready env p config))"
  by (rule emits_only_mono [OF emits_only_client_session]) (auto simp: session_script_def event_kinds)

lemma no_capture_delete:
  "emits_only (\<lambda>e. \<not> is_capture e) (delete_screenshot_of_permit env p)"
  by (rule emits_only_mono [OF emits_only_delete_screenshot_of_permit]) (auto simp: event_kinds)

lemma one_capture_dispatch:
  "emits_at_most_one is_capture (send_screenshot_in_discord env p config)"
proof (cases "cfg_save_screenshot_of_permit config")
  case True
  then show ?thesis by (intro at_most_one_none no_capture_dispatch_retained)
next
  case False
  then show ?thesis
    unfolding send_screenshot_in_discord_def
    by (simp add: at_most_one_seq_first [OF one_capture_save_screenshot_of_permit]
        emits_only_seq no_capture_client_session no_capture_delete)
qed

lemma one_capture_browser_session:
  "emits_at_most_one is_capture (browser_session env config)"
proof -
  have head: "emits_only (\<lambda>e. \<not> is_capture e) (call env (Get u))" for u
    by (intro emits) simp
  have wiz: "emits_only (\<lambda>e. \<not> is_capture e) (create_parking_permit env config)"
    by (rule no_capture_page [OF emits_only_create_parking_permit])
  have expi: "emits_only (\<lambda>e. \<not> is_capture e)
      (get_parking_permit_expiration_date env (timeout config))"
    by (rule no_capture_page [OF emits_only_get_parking_permit_expiration_date])
  have tail: "emits_at_most_one is_capture
      (io_seq (if cfg_save_screenshot_of_permit config
               then save_screenshot_of_permit env p config else io_return ())
      (io_seq (if cfg_send_screenshot_in_discord config
               then send_screenshot_in_discord env p config else io_return ())
              (io_return x)))" for p and x :: datetime
  proof (cases "cfg_save_screenshot_of_permit config")
    case True
    then show ?thesis
      by (simp add: at_most_one_seq_first [OF one_capture_save_screenshot_of_permit]
          emits_only_seq emits_only_return no_capture_dispatch_retained)
  next
    case False
    then show ?thesis
      by (simp add: at_most_one_seq_second [OF emits_only_return]
          at_most_one_seq_first [OF one_capture_dispatch] emits_only_return
          at_most_one_none [OF emits_only_seq [OF emits_only_return emits_only_return]])
  qed
  show ?thesis
    unfolding browser_session_def Let_def
    by (intro at_most_one_seq_second at_most_one_bind_second head wiz expi tail)
qed

lemma one_capture_main:
  assumes "yaml_load env (arg_config (cmdline env)) = Inr config"
  shows "emits_at_most_one is_capture (main env)"
  by (rule at_most_one_main [OF assms one_capture_browser_session])
     (auto simp: event_kinds)

lemma emits_only_dispatch_paths:
  "emits_only (\<lambda>e. page_event e \<or> e = SaveFullPageScreenshot p \<or> e = Close
                  \<or> e \<in> set (session_script config p) \<or> log_event e \<or> e = Remove p)
     (send_screenshot_in_discord env p config)"
  unfolding send_screenshot_in_discord_def
  by (intro emits emits_only_mono [OF emits_only_client_session]
        emits_only_mono [OF emits_only_save_screenshot_of_permit]
        emits_only_mono [OF emits_only_delete_screenshot_of_permit])
     auto

lemma emits_only_browser_session_paths:
  "emits_only (\<lambda>e. artifact_path e = None
                  \<or> artifact_path e = Some (generate_screenshot_file_path env (screenshot_folder config)))
     (browser_session env config)"
  unfolding browser_session_def Let_def
  by (intro emits emits_only_mono [OF emits_only_create_parking_permit]
        emits_only_mono [OF emits_only_get_parking_permit_expiration_date]
        emits_only_mono [OF emits_only_save_screenshot_of_permit]
        emits_only_mono [OF emits_only_dispatch_paths])
     (auto simp: event_kinds session_script_def)

lemma one_path_main:
  assumes "yaml_load env (arg_config (cmdline env)) = Inr config"
  shows "emits_only (\<lambda>e. artifact_path e = None
                  \<or> artifact_path e = Some (generate_screenshot_file_path env (screenshot_folder config)))
     (main env)"
  by (rule emits_only_main [OF assms emits_only_browser_session_paths])
     (auto simp: event_kinds)

lemma dispatch_retained_events:
  assumes "cfg_save_screenshot_of_permit config"
  shows "\<exists>rest. events (send_screenshot_in_discord env p config w) = Close # rest
           \<and> \<not> list_ex browser_use rest"
proof -
  have "emits_only (\<lambda>e. \<not> browser_use e)
          (io_seq (client_start env (discord_bot_token config) (on_ready env p config))
                  (io_return ()))"
    by (intro emits emits_only_mono [OF emits_only_client_session])
       (auto simp: event_kinds session_script_def)
  then have quiet: "\<not> list_ex browser_use
      (events (io_seq (client_start env (discord_bot_token config) (on_ready env p config))
                  (io_return ()) w'))" for w'
    by (simp add: emits_only_def list_all_iff list_ex_iff)
  show ?thesis
    using assms quiet [of w]
    by (simp add: send_screenshot_in_discord_def io_seq_def [of "call env Close"] events_bind
        call_def split: option.splits)
qed

lemma no_capture_without_flags:
  assumes "yaml_load env (arg_config (cmdline env)) = Inr config"
    and "\<not> cfg_save_screenshot_of_permit config"
    and "\<not> cfg_send_screenshot_in_discord config"
  shows "emits_only (\<lambda>e. \<not> is_capture e) (main env)"
proof -
  have "emits_only (\<lambda>e. \<not> is_capture e) (browser_session env config)"
    unfolding browser_session_def Let_def
    using assms(2,3)
    by (intro emits no_capture_page [OF emits_only_create_parking_permit]
          no_capture_page [OF emits_only_get_parking_permit_expiration_date])
       simp_all
  then show ?thesis
    by (rule emits_only_main [OF assms(1)]) (auto simp: event_kinds)
qed

text \<open>
  C10. In every run: at most one capture is issued; every capture, every upload and every
  removal works on the one path that \<open>generate_screenshot_file_path\<close> gave. With
  \<open>save_screenshot_of_permit\<close> true the dispatch step issues \<open>Close\<close> first and then
  no command to the browser at all, so it captures nothing and sends the file that
  \<open>main\<close> captured. The dispatch step never captures twice. With both flags false the
  run captures nothing.
\<close>

theorem one_capture_one_path:
  assumes "yaml_load env (arg_config (cmdline env)) = Inr config"
  shows "length (filter is_capture (events (main env w))) \<le> 1
    \<and> list_all (\<lambda>e. artifact_path e = None
            \<or> artifact_path e = Some (generate_screenshot_file_path env (screenshot_folder config)))
         (events (main env w))
    \<and> (cfg_save_screenshot_of_permit config \<longrightarrow>
         (\<exists>rest. events (send_screenshot_in_discord env p config w') = Close # rest
            \<and> \<not> list_ex browser_use rest))
    \<and> length (filter is_capture (events (send_screenshot_in_discord env p config w'))) \<le> 1
    \<and> (\<not> cfg_save_screenshot_of_permit config \<and> \<not> cfg_send_screenshot_in_discord config \<longrightarrow>
         list_all (\<lambda>e. \<not> is_capture e) (events (main env w)))"
  using one_capture_main [OF assms] one_path_main [OF assms] dispatch_retained_events [of config env p w']
    one_capture_dispatch [of env p config] no_capture_without_flags [OF assms]
  by (simp add: emits_at_most_one_def emits_only_def)


lemma env_plain_loaded: "yaml_load env_plain (arg_config (cmdline env_plain)) = Inr config_plain"
  by (simp add: env_plain_def)

theorem one_capture_one_path_witness:
  "yaml_load env_keep (arg_config (cmdline env_keep)) = Inr config_keep
   \<and> cfg_save_screenshot_of_permit config_keep
   \<and> length (filter is_capture (events (main env_keep world0))) \<le> 1
   \<and> (\<exists>rest. events (send_screenshot_in_discord env_keep shot0 config_keep world0) = Close # rest
         \<and> \<not> list_ex browser_use rest)
   \<and> yaml_load env_plain (arg_config (cmdline env_plain)) = Inr config_plain
   \<and> \<not> cfg_save_screenshot_of_permit config_plain
   \<and> \<not> cfg_send_screenshot_in_discord config_plain
   \<and> list_all (\<lambda>e. \<not> is_capture e) (events (main env_plain world0))"
proof -
  have plain: "\<not> cfg_save_screenshot_of_permit config_plain"
    "\<not> cfg_send_screenshot_in_discord config_plain"
    by (simp_all add: config_plain_def config0_def)
  show ?thesis
    using one_capture_one_path [OF env_keep_loaded, of world0 shot0 world0]
      one_capture_one_path [OF env_plain_loaded, of world0 shot0 world0]
      env_keep_loaded keep_flag env_plain_loaded plain
    by blast
qed

subsection \<open>Closing the browser\<close>

lemma result_bind:
  "result (io_bind m f w) =
     (case result (m w) of Inl e \<Rightarrow> Inl e | Inr x \<Rightarrow> result (f x (world_of (m w))))"
  by (simp add: io_bind_def result_def world_of_def split: prod.splits sum.splits)

lemma result_with_firefox:
  "result (with_firefox env body w) =
     (case raises env FirefoxStart of Some e \<Rightarrow> Inl e | None \<Rightarrow> result (body w))"
  by (simp add: with_firefox_def call_def result_def split: option.splits prod.splits)

lemma result_client_start:
  "result (client_start env t h w) =
     (case raises env (ClientStart t) of
        Some e \<Rightarrow> Inl e
      | None \<Rightarrow> (case result (h w) of Inl e \<Rightarrow> Inl NeverReturns | Inr x \<Rightarrow> Inr ()))"
  by (simp add: client_start_def call_def result_def split: option.splits prod.splits sum.splits)

lemma events_client_start_cases:
  "events (client_start env t h w) =
     (case raises env (ClientStart t) of
        Some e \<Rightarrow> [ClientStart t]
      | None \<Rightarrow> ClientStart t # events (h w))"
  by (simp add: client_start_def call_def events_def split: option.splits prod.splits sum.splits)

lemma main_unfold:
  "main env =
     io_seq (logging_info (''Using config file: '' @ arg_config (cmdline env)))
    (io_seq (validate_config_file env (arg_config (cmdline env)))
    (io_bind (load_config env (arg_config (cmdline env))) (\<lambda>config.
     io_seq (validate_config_warning (i_read_the_config_warning config))
    (io_bind (with_firefox env (browser_session env config))
       (\<lambda>parking_permit_expiration_date.
     if automatically_renew_permit config
     then schedule_program_to_renew_permit env parking_permit_expiration_date (cmdline env)
     else io_return ())))))"
  by (simp add: main_def parse_arguments_def setup_logging_def io_return_bind io_seq_def)

lemma emits_only_load_config: "emits_only log_event (load_config env f)"
  unfolding load_config_def
  by (cases "yaml_load env f") (auto intro!: emits)

lemma load_config_result:
  "result (load_config env f w) = Inr config \<Longrightarrow> yaml_load env f = Inr config"
  by (cases "yaml_load env f")
     (auto simp: load_config_def io_seq_def io_bind_def logging_error_def sys_exit_def
        io_raise_def io_return_def split: if_splits)

lemma released_quiet:
  assumes "emits_only (\<lambda>e. e \<noteq> FirefoxStart \<and> e \<noteq> Quit) m"
  shows "released env m"
proof -
  have "Quit \<notin> set (events (m w)) \<and> FirefoxStart \<notin> set (events (m w))" for w
    using assms by (auto simp: emits_only_def list_all_iff)
  then show ?thesis by (simp add: released_def)
qed

lemma released_at:
  "released env m \<Longrightarrow>
     (Quit \<in> set (events (m w)) \<longrightarrow>
        FirefoxStart \<in> set (events (m w)) \<and> raises env FirefoxStart = None)
     \<and> (FirefoxStart \<in> set (events (m w)) \<and> raises env FirefoxStart = None
          \<and> result (m w) \<noteq> Inl NeverReturns \<longrightarrow>
        Quit \<in> set (events (m w)))"
  unfolding released_def by blast

lemma released_bind:
  assumes "released env m" and "\<And>x. released env (f x)"
  shows "released env (io_bind m f)"
proof -
  have "(Quit \<in> set (events (io_bind m f w)) \<longrightarrow>
           FirefoxStart \<in> set (events (io_bind m f w)) \<and> raises env FirefoxStart = None)
      \<and> (FirefoxStart \<in> set (events (io_bind m f w)) \<and> raises env FirefoxStart = None
           \<and> result (io_bind m f w) \<noteq> Inl NeverReturns \<longrightarrow>
           Quit \<in> set (events (io_bind m f w)))" for w
  proof (cases "result (m w)")
    case (Inl e)
    have ev: "events (io_bind m f w) = events (m w)"
      and res: "result (io_bind m f w) \<noteq> Inl NeverReturns \<longleftrightarrow>
                  result (m w) \<noteq> Inl NeverReturns"
      using Inl by (simp_all add: events_bind result_bind)
    show ?thesis
      unfolding ev res using released_at [OF assms(1), of w] by blast
  next
    case (Inr x)
    have ev: "set (events (io_bind m f w)) =
                set (events (m w)) \<union> set (events (f x (world_of (m w))))"
      and res: "result (io_bind m f w) = result (f x (world_of (m w)))"
      and ok: "result (m w) \<noteq> Inl NeverReturns"
      using Inr by (simp_all add: events_bind result_bind)
    show ?thesis
      unfolding ev res
      using released_at [OF assms(1), of w] released_at [OF assms(2), of x "world_of (m w)"] ok
      by blast
  qed
  then show ?thesis unfolding released_def by blast
qed

lemma released_seq: "released env m \<Longrightarrow> released env k \<Longrightarrow> released env (io_seq m k)"
  by (simp add: io_seq_def released_bind)

lemma released_with_firefox:
  assumes "emits_only (\<lambda>e. e \<noteq> FirefoxStart \<and> e \<noteq> Quit) body"
  shows "released env (with_firefox env body)"
proof (cases "raises env FirefoxStart")
  case None
  have "Quit \<notin> set (events (body w))" for w
    using assms by (auto simp: emits_only_def list_all_iff)
  with None show ?thesis
    by (simp add: released_def events_with_firefox result_with_firefox)
next
  case (Some e)
  then show ?thesis
    by (simp add: released_def events_with_firefox)
qed

lemma inside_browser_session:
  "emits_only (\<lambda>e. e \<noteq> FirefoxStart \<and> e \<noteq> Quit) (browser_session env config)"
proof (cases "cfg_save_screenshot_of_permit config")
  case True
  then show ?thesis
    by (intro emits_only_mono [OF emits_only_browser_session_retained]) (auto simp: event_kinds)
next
  case False
  then show ?thesis
    by (intro emits_only_mono [OF emits_only_browser_session_ephemeral]) (auto simp: event_kinds)
qed

lemma outside_log: "emits_only log_event m \<Longrightarrow> emits_only (\<lambda>e. e \<noteq> FirefoxStart \<and> e \<noteq> Quit) m"
  by (erule emits_only_mono) (auto simp: event_kinds)

lemma outside_schedule:
  "emits_only (\<lambda>e. e \<noteq> FirefoxStart \<and> e \<noteq> Quit)
     (if b then schedule_program_to_renew_permit env e a else io_return ())"
  by (intro emits emits_only_mono [OF emits_only_schedule]) (auto simp: event_kinds)

lemma released_main: "released env (main env)"
  unfolding main_unfold
  apply (intro released_seq released_bind released_with_firefox inside_browser_session)
      apply (rule released_quiet; intro emits; simp)
     apply (rule released_quiet [OF outside_log [OF emits_only_validate_config_file]])
    apply (rule released_quiet [OF outside_log [OF emits_only_load_config]])
   apply (rule released_quiet [OF outside_log [OF emits_only_validate_config_warning]])
  apply (rule released_quiet [OF outside_schedule])
  done


lemma one_quit_with_firefox:
  assumes "emits_only (\<lambda>e. e \<noteq> FirefoxStart \<and> e \<noteq> Quit) body"
  shows "emits_at_most_one (\<lambda>e. e = Quit) (with_firefox env body)"
proof -
  have "filter (\<lambda>e. e = Quit) (events (body w)) = []" for w
    using assms by (auto simp: emits_only_def list_all_iff filter_empty_conv)
  then show ?thesis
    by (simp add: emits_at_most_one_def events_with_firefox split: option.splits)
qed

lemma quiet_log:
  "emits_only log_event m \<Longrightarrow> (\<And>e. log_event e \<Longrightarrow> \<not> P e) \<Longrightarrow> emits_only (\<lambda>e. \<not> P e) m"
  by (erule emits_only_mono) simp

lemma at_most_one_main_session:
  assumes session: "\<And>config. emits_at_most_one P (with_firefox env (browser_session env config))"
    and log: "\<And>e. log_event e \<Longrightarrow> \<not> P e" and run: "\<And>argv. \<not> P (SubprocessRun argv)"
  shows "emits_at_most_one P (main env)"
proof -
  have sched: "emits_only (\<lambda>e. \<not> P e)
      (if b then schedule_program_to_renew_permit env e a else io_return ())" for b e a
    by (intro emits emits_only_mono [OF emits_only_schedule]) (auto simp: log run)
  have tail: "emits_at_most_one P
      (io_seq (validate_config_warning r)
        (io_bind (with_firefox env (browser_session env config))
           (\<lambda>e. if b then schedule_program_to_renew_permit env e a else io_return ())))"
    for config r b a
    by (rule at_most_one_seq_second [OF quiet_log [OF emits_only_validate_config_warning log]
          at_most_one_bind_first [OF session sched]])
  have head: "emits_only (\<lambda>e. \<not> P e) (logging_info msg)" for msg
    by (intro emits) (simp add: log)
  show ?thesis
    unfolding main_unfold
    by (rule at_most_one_seq_second [OF head
          at_most_one_seq_second [OF quiet_log [OF emits_only_validate_config_file log]
            at_most_one_bind_second [OF quiet_log [OF emits_only_load_config log] tail]]])
qed

lemma one_quit_main: "emits_at_most_one (\<lambda>e. e = Quit) (main env)"
  by (rule at_most_one_main_session [OF one_quit_with_firefox [OF inside_browser_session]])
     (auto simp: event_kinds)

lemma no_close_page: "emits_only page_event m \<Longrightarrow> emits_only (\<lambda>e. e \<noteq> Close) m"
  by (erule emits_only_mono) (auto simp: event_kinds)

lemma no_close_save_screenshot_of_permit:
  "emits_only (\<lambda>e. e \<noteq> Close) (save_screenshot_of_permit env p config)"
  by (rule emits_only_mono [OF emits_only_save_screenshot_of_permit]) (auto simp: event_kinds)

lemma no_close_client_session:
  "emits_only (\<lambda>e. e \<noteq> Close)
     (client_start env (discord_bot_token config) (on_ready env p config))"
  by (rule emits_only_mono [OF emits_only_client_session]) (auto simp: session_script_def event_kinds)

lemma one_close_dispatch:
  "emits_at_most_one (\<lambda>e. e = Close) (send_screenshot_in_discord env p config)"
proof (cases "cfg_save_screenshot_of_permit config")
  case True
  then show ?thesis
    unfolding send_screenshot_in_discord_def
    by (simp add: at_most_one_seq_first [OF at_most_one_call] emits_only_seq
        no_close_client_session emits_only_return)
next
  case False
  then show ?thesis
    by (intro at_most_one_none emits_only_mono [OF emits_only_dispatch_ephemeral])
       (auto simp: event_kinds)
qed

lemma one_close_browser_session:
  "emits_at_most_one (\<lambda>e. e = Close) (browser_session env config)"
proof -
  have head: "emits_only (\<lambda>e. \<not> e = Close) (call env (Get u))" for u
    by (intro emits) simp
  have wiz: "emits_only (\<lambda>e. \<not> e = Close) (create_parking_permit env config)"
    by (rule no_close_page [OF emits_only_create_parking_permit])
  have expi: "emits_only (\<lambda>e. \<not> e = Close)
      (get_parking_permit_expiration_date env (timeout config))"
    by (rule no_close_page [OF emits_only_get_parking_permit_expiration_date])
  have capture: "emits_only (\<lambda>e. \<not> e = Close)
      (if cfg_save_screenshot_of_permit config
       then save_screenshot_of_permit env p config else io_return ())" for p
    by (simp add: no_close_save_screenshot_of_permit emits_only_return)
  have tail: "emits_at_most_one (\<lambda>e. e = Close)
      (io_seq (if cfg_send_screenshot_in_discord config
               then send_screenshot_in_discord env p config else io_return ())
              (io_return x))" for p and x :: datetime
    by (simp add: at_most_one_seq_first [OF one_close_dispatch] emits_only_return
        at_most_one_none [OF emits_only_seq [OF emits_only_return emits_only_return]])
  show ?thesis
    unfolding browser_session_def Let_def
    by (intro at_most_one_seq_second at_most_one_bind_second head wiz expi capture tail)
qed

lemma one_close_main: "emits_at_most_one (\<lambda>e. e = Close) (main env)"
  by (rule at_most_one_main_session
        [OF at_most_one_with_firefox [OF _ _ one_close_browser_session]])
     (auto simp: event_kinds)

lemma no_close_browser_session:
  assumes "\<not> (cfg_save_screenshot_of_permit config \<and> cfg_send_screenshot_in_discord config)"
  shows "emits_only (\<lambda>e. e \<noteq> Close) (browser_session env config)"
proof (cases "cfg_save_screenshot_of_permit config")
  case True
  with assms have "\<not> cfg_send_screenshot_in_discord config" by simp
  then show ?thesis
    unfolding browser_session_def Let_def
    by (intro emits no_close_page [OF emits_only_create_parking_permit]
          no_close_page [OF emits_only_get_parking_permit_expiration_date]
          no_close_save_screenshot_of_permit)
       simp_all
next
  case False
  then show ?thesis
    by (intro emits_only_mono [OF emits_only_browser_session_ephemeral]) (auto simp: event_kinds)
qed

lemma no_close_main:
  assumes "yaml_load env (arg_config (cmdline env)) = Inr config"
    and "\<not> (cfg_save_screenshot_of_permit config \<and> cfg_send_screenshot_in_discord config)"
  shows "emits_only (\<lambda>e. e \<noteq> Close) (main env)"
  by (rule emits_only_main [OF assms(1) no_close_browser_session [OF assms(2)]])
     (auto simp: event_kinds)

lemma emits_only_bind_raise:
  assumes "emits_only P m" and "\<And>w x. result (m w) \<noteq> Inr x"
  shows "emits_only P (io_bind m f)"
  using assms by (auto simp: emits_only_def events_bind split: sum.splits)

lemma main_not_loaded:
  assumes "yaml_load env (arg_config (cmdline env)) = Inl e"
  shows "emits_only log_event (main env)"
proof -
  have "result (load_config env (arg_config (cmdline env)) w) \<noteq> Inr x" for w x
    using load_config_result [of env "arg_config (cmdline env)" w x] assms by auto
  then show ?thesis
    unfolding main_unfold
    by (intro emits_only_seq emits_only_bind_raise emits_only_validate_config_file
          emits_only_load_config emits_only_logging_info) simp_all
qed

lemma close_needs_flags:
  assumes "Close \<in> set (events (main env w))"
  shows "\<exists>config. yaml_load env (arg_config (cmdline env)) = Inr config
           \<and> cfg_save_screenshot_of_permit config \<and> cfg_send_screenshot_in_discord config"
proof (cases "yaml_load env (arg_config (cmdline env))")
  case (Inl e)
  from main_not_loaded [OF Inl] have "list_all log_event (events (main env w))"
    by (simp add: emits_only_def)
  with assms have "log_event Close"
    unfolding list_all_iff by blast
  then show ?thesis by simp
next
  case (Inr config)
  show ?thesis
  proof (rule ccontr)
    assume "\<not> ?thesis"
    with Inr have "\<not> (cfg_save_screenshot_of_permit config
                      \<and> cfg_send_screenshot_in_discord config)"
      by simp
    from no_close_main [OF Inr this] assms show False
      by (auto simp: emits_only_def list_all_iff)
  qed
qed


subsection \<open>A handler that fails\<close>

lemma stalls_quiet:
  assumes "emits_only (\<lambda>e. \<not> handler_command e) m"
  shows "stalls env m"
proof -
  have "\<not> list_ex (\<lambda>c. handler_command c \<and> raises env c \<noteq> None) (events (m w))" for w
    using assms by (auto simp: emits_only_def list_all_iff list_ex_iff)
  then show ?thesis unfolding stalls_def by blast
qed

lemma stalls_at:
  "stalls env m \<Longrightarrow>
     list_ex (\<lambda>c. handler_command c \<and> raises env c \<noteq> None) (events (m w)) \<Longrightarrow>
     result (m w) = Inl NeverReturns \<and> Quit \<notin> set (events (m w))"
  unfolding stalls_def by blast

lemma stalls_bind_first:
  assumes "stalls env m" and "\<And>x. emits_only (\<lambda>e. \<not> handler_command e) (f x)"
  shows "stalls env (io_bind m f)"
proof -
  have "result (io_bind m f w) = Inl NeverReturns \<and> Quit \<notin> set (events (io_bind m f w))"
    if h: "list_ex (\<lambda>c. handler_command c \<and> raises env c \<noteq> None) (events (io_bind m f w))"
    for w
  proof -
    have "\<not> list_ex (\<lambda>c. handler_command c \<and> raises env c \<noteq> None) (events (f x w'))"
      for x w'
      using assms(2) [of x] by (auto simp: emits_only_def list_all_iff list_ex_iff)
    with h have "list_ex (\<lambda>c. handler_command c \<and> raises env c \<noteq> None) (events (m w))"
      by (cases "result (m w)") (simp_all add: events_bind)
    from stalls_at [OF assms(1) this] show ?thesis
      by (simp add: events_bind result_bind)
  qed
  then show ?thesis unfolding stalls_def by blast
qed

lemma stalls_bind_second:
  assumes "emits_only (\<lambda>e. \<not> handler_command e \<and> e \<noteq> Quit) m" and "\<And>x. stalls env (f x)"
  shows "stalls env (io_bind m f)"
proof -
  have "result (io_bind m f w) = Inl NeverReturns \<and> Quit \<notin> set (events (io_bind m f w))"
    if h: "list_ex (\<lambda>c. handler_command c \<and> raises env c \<noteq> None) (events (io_bind m f w))"
    for w
  proof -
    have no: "\<not> list_ex (\<lambda>c. handler_command c \<and> raises env c \<noteq> None) (events (m w))"
      and quit: "Quit \<notin> set (events (m w))"
      using assms(1) by (auto simp: emits_only_def list_all_iff list_ex_iff)
    show ?thesis
    proof (cases "result (m w)")
      case (Inl e)
      with h no show ?thesis by (simp add: events_bind)
    next
      case (Inr x)
      with h no
      have "list_ex (\<lambda>c. handler_command c \<and> raises env c \<noteq> None)
              (events (f x (world_of (m w))))"
        by (simp add: events_bind)
      from stalls_at [OF assms(2) this] Inr quit show ?thesis
        by (simp add: events_bind result_bind)
    qed
  qed
  then show ?thesis unfolding stalls_def by blast
qed

lemma stalls_seq_first:
  "stalls env m \<Longrightarrow> emits_only (\<lambda>e. \<not> handler_command e) k \<Longrightarrow> stalls env (io_seq m k)"
  by (simp add: io_seq_def stalls_bind_first)

lemma stalls_seq_second:
  "emits_only (\<lambda>e. \<not> handler_command e \<and> e \<noteq> Quit) m \<Longrightarrow> stalls env k \<Longrightarrow>
     stalls env (io_seq m k)"
  by (simp add: io_seq_def stalls_bind_second)

lemma stalls_with_firefox:
  assumes "stalls env body"
  shows "stalls env (with_firefox env body)"
proof -
  have "result (with_firefox env body w) = Inl NeverReturns
          \<and> Quit \<notin> set (events (with_firefox env body w))"
    if h: "list_ex (\<lambda>c. handler_command c \<and> raises env c \<noteq> None)
             (events (with_firefox env body w))"
    for w
  proof (cases "raises env FirefoxStart")
    case (Some e)
    with h show ?thesis by (simp add: events_with_firefox)
  next
    case None
    with h have "list_ex (\<lambda>c. handler_command c \<and> raises env c \<noteq> None) (events (body w))"
      by (simp add: events_with_firefox split: if_splits)
    from stalls_at [OF assms this] None show ?thesis
      by (simp add: events_with_firefox result_with_firefox)
  qed
  then show ?thesis unfolding stalls_def by blast
qed

lemma on_ready_fails:
  "list_ex (\<lambda>c. handler_command c \<and> raises env c \<noteq> None) (events (on_ready env p config w)) \<Longrightarrow>
     \<exists>e. result (on_ready env p config w) = Inl e"
  by (auto simp: on_ready_def channel_send_def logging_info_def io_seq_def io_bind_def
      io_raise_def call_def split: option.splits if_splits)

lemma stalls_client_session:
  "stalls env (client_start env (discord_bot_token config) (on_ready env p config))"
proof -
  let ?m = "client_start env (discord_bot_token config) (on_ready env p config)"
  have "result (?m w) = Inl NeverReturns \<and> Quit \<notin> set (events (?m w))"
    if h: "list_ex (\<lambda>c. handler_command c \<and> raises env c \<noteq> None) (events (?m w))" for w
  proof -
    have "list_all (\<lambda>e. e \<in> set (session_script config p) \<or> log_event e) (events (?m w))"
      using emits_only_client_session [of config p env] by (simp add: emits_only_def)
    then have quit: "Quit \<notin> set (events (?m w))"
      by (auto simp: list_all_iff session_script_def)
    show ?thesis
    proof (cases "raises env (ClientStart (discord_bot_token config))")
      case (Some e)
      with h show ?thesis by (simp add: events_client_start_cases)
    next
      case None
      with h have "list_ex (\<lambda>c. handler_command c \<and> raises env c \<noteq> None)
                     (events (on_ready env p config w))"
        by (simp add: events_client_start_cases)
      from on_ready_fails [OF this] obtain e where "result (on_ready env p config w) = Inl e" ..
      with None quit show ?thesis by (simp add: result_client_start)
    qed
  qed
  then show ?thesis unfolding stalls_def by blast
qed

lemma calm_page:
  "emits_only page_event m \<Longrightarrow> emits_only (\<lambda>e. \<not> handler_command e \<and> e \<noteq> Quit) m"
  by (erule emits_only_mono) (auto simp: event_kinds)

lemma calm_log:
  "emits_only log_event m \<Longrightarrow> emits_only (\<lambda>e. \<not> handler_command e \<and> e \<noteq> Quit) m"
  by (erule emits_only_mono) (auto simp: event_kinds)

lemma calm_save_screenshot_of_permit:
  "emits_only (\<lambda>e. \<not> handler_command e \<and> e \<noteq> Quit) (save_screenshot_of_permit env p config)"
  by (rule emits_only_mono [OF emits_only_save_screenshot_of_permit]) (auto simp: event_kinds)

lemma calm_delete_screenshot_of_permit:
  "emits_only (\<lambda>e. \<not> handler_command e) (delete_screenshot_of_permit env p)"
  by (rule emits_only_mono [OF emits_only_delete_screenshot_of_permit]) (auto simp: event_kinds)

lemma stalls_dispatch: "stalls env (send_screenshot_in_discord env p config)"
proof -
  have first: "emits_only (\<lambda>e. \<not> handler_command e \<and> e \<noteq> Quit)
      (if \<not> cfg_save_screenshot_of_permit config
       then save_screenshot_of_permit env p config else call env Close)"
    by (simp add: calm_save_screenshot_of_permit emits_only_call)
  have last: "emits_only (\<lambda>e. \<not> handler_command e)
      (if \<not> cfg_save_screenshot_of_permit config
       then delete_screenshot_of_permit env p else io_return ())"
    by (simp add: calm_delete_screenshot_of_permit emits_only_return)
  show ?thesis
    unfolding send_screenshot_in_discord_def
    by (rule stalls_seq_second [OF first stalls_seq_first [OF stalls_client_session last]])
qed

lemma stalls_browser_session: "stalls env (browser_session env config)"
proof -
  have head: "emits_only (\<lambda>e. \<not> handler_command e \<and> e \<noteq> Quit) (call env (Get u))" for u
    by (intro emits) simp
  have wiz: "emits_only (\<lambda>e. \<not> handler_command e \<and> e \<noteq> Quit)
      (create_parking_permit env config)"
    by (rule calm_page [OF emits_only_create_parking_permit])
  have expi: "emits_only (\<lambda>e. \<not> handler_command e \<and> e \<noteq> Quit)
      (get_parking_permit_expiration_date env (timeout config))"
    by (rule calm_page [OF emits_only_get_parking_permit_expiration_date])
  have capture: "emits_only (\<lambda>e. \<not> handler_command e \<and> e \<noteq> Quit)
      (if cfg_save_screenshot_of_permit config
       then save_screenshot_of_permit env p config else io_return ())" for p
    by (simp add: calm_save_screenshot_of_permit emits_only_return)
  have send: "stalls env
      (if cfg_send_screenshot_in_discord config
       then send_screenshot_in_discord env p config else io_return ())" for p
    by (simp add: stalls_dispatch stalls_quiet [OF emits_only_return])
  have tail: "stalls env
      (io_seq (if cfg_send_screenshot_in_discord config
               then send_screenshot_in_discord env p config else io_return ())
              (io_return x))" for p and x :: datetime
    by (rule stalls_seq_first [OF send emits_only_return])
  show ?thesis
    unfolding browser_session_def Let_def
    by (intro stalls_seq_second stalls_bind_second head wiz expi capture tail)
qed

lemma stalls_main: "stalls env (main env)"
proof -
  have sched: "emits_only (\<lambda>e. \<not> handler_command e)
      (if b then schedule_program_to_renew_permit env e a else io_return ())" for b e a
    by (intro emits emits_only_mono [OF emits_only_schedule]) (auto simp: event_kinds)
  have tail: "stalls env
      (io_seq (validate_config_warning r)
        (io_bind (with_firefox env (browser_session env config))
           (\<lambda>e. if b then schedule_program_to_renew_permit env e a else io_return ())))"
    for config r b a
    by (rule stalls_seq_second [OF calm_log [OF emits_only_validate_config_warning]
          stalls_bind_first [OF stalls_with_firefox [OF stalls_browser_session] sched]])
  have head: "emits_only (\<lambda>e. \<not> handler_command e \<and> e \<noteq> Quit) (logging_info msg)" for msg
    by (intro emits) simp
  show ?thesis
    unfolding main_unfold
    by (rule stalls_seq_second [OF head
          stalls_seq_second [OF calm_log [OF emits_only_validate_config_file]
            stalls_bind_second [OF calm_log [OF emits_only_load_config] tail]]])
qed

lemma env_keep_run:
  "result (main env_keep world0) = Inr ()
   \<and> filter closes (events (main env_keep world0)) = [Close, Quit]"
  by (simp add: run_defs create_parking_permit_script wizard_script_def
      strptime_sample [unfolded date_format_def] date_format_def
      env_keep_def env0_def config_keep_def config0_def args0_def world0_def clock0_def
      schedule_program_to_renew_permit_def subprocess_run_def Let_def
      datetime_less_def datetime_key_def expiry0_def suffix_to_prefix)

lemma send_flag_keep: "cfg_send_screenshot_in_discord config_keep"
  by (simp add: config_keep_def config0_def)

lemma env_send_fails_run:
  "result (main env_send_fails world0) = Inl NeverReturns
   \<and> FirefoxStart \<in> set (events (main env_send_fails world0))
   \<and> raises env_send_fails FirefoxStart = None
   \<and> list_ex (\<lambda>c. handler_command c \<and> raises env_send_fails c \<noteq> None)
        (events (main env_send_fails world0))"
  by (simp add: run_defs create_parking_permit_script wizard_script_def
      strptime_sample [unfolded date_format_def] date_format_def
      env_send_fails_def env0_def config0_def args0_def world0_def clock0_def
      schedule_program_to_renew_permit_def subprocess_run_def Let_def
      datetime_less_def datetime_key_def expiry0_def suffix_to_prefix)




end
